theory Spec2Isabelle
  imports Complex_Main
begin

section \<open>Python values used by the overlay\<close>

text \<open>
  The program is a Python desktop overlay. Its floats are read as real numbers and
  its unbounded integers as \<open>int\<close>. A Python \<open>str\<close> that is shown on screen is the
  list of its Unicode code points (so that \<open>len\<close> counts what Python counts); the ASCII
  dictionary keys and side names of the program are plain strings. An exception is a
  value of \<open>py_exception\<close>, and a function that may raise returns a sum whose left
  injection is the exception.
\<close>

datatype py_exception = IndexError | OSError

type_synonym phrase = "nat list"

section \<open>Phrase buckets (\<open>main.py\<close>, \<open>_pick_bucket\<close> and \<open>PhraseManager\<close>)\<close>

type_synonym bucket = "real \<times> real \<times> phrase list"

type_synonym buckets = "bucket list"

text \<open>The five tables of the program, in the order of the source.\<close>

definition CPU_BUCKETS :: buckets where
  "CPU_BUCKETS =
   [(0, 10,
     [[25720, 40060, 27169, 24335, 32, 128564],
      [24453, 26426, 20901, 24819, 32, 129496],
      [39118, 25159, 22312, 20241, 20551, 32, 127807]]),
    (10, 30,
     [[36731, 26494, 20889, 20889, 32, 9997, 65039],
      [20302, 21151, 32791, 24033, 33322, 32, 128747],
      [23567, 36305, 19968, 19979, 32, 127939]]),
    (30, 60,
     [[35748, 30495, 24178, 27963, 20013, 32, 128736, 65039],
      [22810, 32447, 31243, 24320, 24037, 32, 129525],
      [27491, 22312, 21152, 29677, 32, 9749]]),
    (60, 85,
     [[28779, 21147, 20840, 24320, 32, 128170],
      [67, 80, 85, 32, 22312, 29378, 22868, 32, 127950, 65039],
      [24615, 33021, 27169, 24335, 32, 79, 78, 32, 9889]]),
    (85, 101,
     [[24555, 20882, 28895, 20102, 32, 128293],
      [21035, 20877, 21152, 20219, 21153, 20102, 32, 128565],
      [39118, 25159, 36215, 39134, 32, 9992, 65039]])]"

definition GPU_BUCKETS :: buckets where
  "GPU_BUCKETS =
   [(0, 10,
     [[26174, 21345, 22312, 30561, 35273, 32, 128164],
      [26700, 38754, 27169, 24335, 32, 128421, 65039],
      [20302, 39057, 20859, 29983, 32, 127769]]),
    (10, 35,
     [[36731, 37327, 28210, 26579, 32, 127912],
      [23567, 35797, 29275, 20992, 32, 128046],
      [25171, 20010, 23567, 24618, 32, 128126]]),
    (35, 65,
     [[31283, 31283, 36755, 20986, 32, 127919],
      [27491, 22312, 21152, 36895, 32, 128640],
      [29980, 21697, 36127, 36733, 32, 127856]]),
    (65, 90,
     [[20809, 36861, 24320, 21040, 29245, 32, 10024],
      [26174, 21345, 22312, 29123, 28903, 32, 128293],
      [24103, 25968, 20914, 21050, 32, 127937]]),
    (90, 101,
     [[26680, 24377, 28210, 26579, 32, 9762, 65039],
      [71, 80, 85, 65306, 25105, 23613, 21147, 20102, 32, 128557],
      [35201, 29190, 20102, 32, 128226]])]"

definition RAM_BUCKETS :: buckets where
  "RAM_BUCKETS =
   [(0, 25,
     [[20869, 23384, 24456, 26494, 32, 129767],
      [36824, 24456, 31354, 32, 128524],
      [38543, 20415, 24320, 37117, 34892, 32, 129475]]),
    (25, 55,
     [[21344, 29992, 27491, 24120, 32, 9989],
      [31283, 31283, 30340, 32, 129496],
      [22815, 29992, 23601, 22909, 32, 128578]]),
    (55, 75,
     [[24320, 22987, 25317, 25380, 20102, 32, 128694],
      [26377, 28857, 25380, 32, 128517],
      [27880, 24847, 21518, 21488, 32, 128064]]),
    (75, 90,
     [[20869, 23384, 21507, 32039, 32, 129512],
      [35201, 28165, 29702, 20102, 32, 129529],
      [21518, 21488, 22826, 22810, 20102, 32, 128565]]),
    (90, 101,
     [[20869, 23384, 21578, 24613, 32, 128680],
      [24555, 28322, 20986, 20102, 32, 129760],
      [35831, 20851, 38381, 28857, 19996, 35199, 32, 128557]])]"

definition DISK_IO_BUCKETS :: buckets where
  "DISK_IO_BUCKETS =
   [(0, 3 / 10,
     [[30913, 30424, 25171, 30457, 32, 128164],
      [20960, 20046, 19981, 21160, 32, 129323],
      [31354, 38386, 25720, 40060, 32, 129767]]),
    (3 / 10, 5,
     [[36731, 36731, 32763, 39029, 32, 128196],
      [35835, 20889, 23567, 24537, 32, 129475],
      [31283, 31283, 30340, 32, 128578]]),
    (5, 30,
     [[35835, 20889, 21152, 36895, 32, 9881, 65039],
      [32531, 23384, 28909, 36523, 32, 128293],
      [24320, 22987, 35748, 30495, 32, 128736, 65039]]),
    (30, 120,
     [[30913, 30424, 36215, 39134, 32, 128640],
      [21534, 21520, 25289, 28385, 32, 128189],
      [21035, 25171, 25200, 25105, 32, 128565]]),
    (120, 1000000000,
     [[73, 79, 32, 29190, 34920, 32, 128680],
      [30127, 29378, 35835, 20889, 32, 9762, 65039],
      [21345, 39039, 39044, 35686, 32, 9888, 65039]])]"

definition MOOD_BUCKETS :: buckets where
  "MOOD_BUCKETS =
   [(0, 20,
     [[25720, 40060, 20013, 32, 128564],
      [38745, 40664, 32, 129767],
      [20859, 29983, 32, 127807]]),
    (20, 40,
     [[24033, 33322, 32, 128747],
      [23567, 24537, 32, 128578],
      [19981, 24908, 32, 129496]]),
    (40, 60,
     [[35748, 30495, 32, 128736, 65039],
      [24320, 24037, 32, 9881, 65039],
      [31283, 31283, 36755, 20986, 32, 9989]]),
    (60, 80,
     [[21152, 36895, 32, 128640],
      [28779, 21147, 20840, 24320, 32, 128170],
      [36215, 39134, 32, 9992, 65039]]),
    (80, 101,
     [[29190, 32925, 32, 128293],
      [24555, 20882, 28895, 32, 129397],
      [25937, 21629, 32, 128680]])]"

text \<open>
  The \<open>for\<close> loop of \<open>_pick_bucket\<close>: \<open>pick_scan bs usage i\<close> scans the buckets
  that are left, \<open>i\<close> being the index \<open>enumerate\<close> gives to the first of them, and
  stops at the first bucket with \<open>lo <= usage < hi\<close>.
\<close>

fun pick_scan :: "buckets \<Rightarrow> real \<Rightarrow> nat \<Rightarrow> (int \<times> phrase list) option" where
  "pick_scan [] usage i = None"
| "pick_scan ((lo, hi, texts) # bs) usage i =
     (if lo \<le> usage \<and> usage < hi then Some (int i, texts)
      else pick_scan bs usage (Suc i))"

text \<open>
  After the loop the function returns \<open>len(buckets) - 1, buckets[-1][2]\<close>; on an
  empty table \<open>buckets[-1]\<close> raises \<open>IndexError\<close>.
\<close>

definition pick_bucket :: "buckets \<Rightarrow> real \<Rightarrow> py_exception + (int \<times> phrase list)" where
  "pick_bucket bs usage =
     (case pick_scan bs usage 0 of
        Some r \<Rightarrow> Inr r
      | None \<Rightarrow>
          (if bs = [] then Inl IndexError
           else Inr (int (length bs) - 1, snd (snd (last bs)))))"

text \<open>
  \<open>random.choice(seq)\<close> raises \<open>IndexError\<close> on an empty sequence and returns one of
  its elements otherwise. The generator is outside the program: the number drawn is an
  argument, and every natural number stands for a draw (it is reduced modulo the length).
\<close>

definition random_choice :: "nat \<Rightarrow> 'a list \<Rightarrow> py_exception + 'a" where
  "random_choice r xs = (if xs = [] then Inl IndexError else Inr (xs ! (r mod length xs)))"

text \<open>The sentinel returned for a missing reading (six code points).\<close>

definition NO_DATA :: phrase where
  "NO_DATA = [25968, 25454, 32570, 24109, 32, 129335]"

text \<open>\<open>PhraseManager.state\<close>: kind to (bucket index, phrase).\<close>

type_synonym phrase_state = "string \<rightharpoonup> (int option \<times> phrase)"

text \<open>
  \<open>PhraseManager.get\<close>. The pair \<open>draws\<close> holds the numbers drawn by the first and by
  the second \<open>random.choice\<close>. The result is the phrase and the state after the call.
\<close>

definition get ::
  "string \<Rightarrow> real option \<Rightarrow> buckets \<Rightarrow> nat \<times> nat \<Rightarrow> phrase_state
     \<Rightarrow> py_exception + (phrase \<times> phrase_state)" where
  "get kind usage bs draws st =
     (case usage of
        None \<Rightarrow> Inr (NO_DATA, st)
      | Some u \<Rightarrow>
          (case pick_bucket bs u of
             Inl e \<Rightarrow> Inl e
           | Inr (idx, texts) \<Rightarrow>
               (case (case st kind of None \<Rightarrow> (None, []) | Some p \<Rightarrow> p) of
                  (last_idx, last_phrase) \<Rightarrow>
                    if last_idx = Some idx \<and> last_phrase \<noteq> [] then Inr (last_phrase, st)
                    else
                      (case random_choice (fst draws) texts of
                         Inl e \<Rightarrow> Inl e
                       | Inr phrase \<Rightarrow>
                           if phrase = last_phrase \<and> 1 < length texts then
                             (case random_choice (snd draws)
                                     (filter (\<lambda>t. t \<noteq> last_phrase) texts) of
                                Inl e \<Rightarrow> Inl e
                              | Inr alt \<Rightarrow> Inr (alt, st(kind \<mapsto> (Some idx, alt))))
                           else Inr (phrase, st(kind \<mapsto> (Some idx, phrase)))))))"

section \<open>Rate readers (\<open>main.py\<close>, \<open>DiskRateReader\<close>; \<open>sensors_psutil.py\<close>, \<open>PsutilReader\<close>)\<close>

text \<open>
  What the calls into \<open>psutil\<close> and \<open>time\<close> give at one call site: the clock, and for
  each counter function either the exception it raises or the tuple it returns (\<open>None\<close>
  where \<open>psutil\<close> has nothing to report).
\<close>

record sdiskio =
  read_bytes :: int
  write_bytes :: int

record snetio =
  bytes_sent :: int
  bytes_recv :: int

record scpufreq =
  current :: real

record svmem =
  percent :: real
  used :: int
  available :: int

record os_calls =
  time_time :: real
  disk_io_counters :: "py_exception + sdiskio option"
  net_io_counters :: "py_exception + snetio option"
  cpu_percent :: "py_exception + real option"
  cpu_freq :: "py_exception + scpufreq option"
  virtual_memory :: "py_exception + svmem option"

text \<open>Fields \<open>_last\<close> and \<open>_last_t\<close> of \<open>DiskRateReader\<close>.\<close>

record DiskRateReader =
  dr_last :: "sdiskio option"
  dr_last_t :: "real option"

text \<open>
  \<open>DiskRateReader.read\<close>. The body is one \<open>try\<close> whose handler returns
  \<open>(None, None)\<close>; the only call in it that can raise is \<open>psutil.disk_io_counters()\<close>,
  which comes first, so the reader is unchanged when the handler runs.
\<close>

definition disk_rate_read ::
  "os_calls \<Rightarrow> DiskRateReader \<Rightarrow> (real option \<times> real option) \<times> DiskRateReader" where
  "disk_rate_read os rd =
     (case disk_io_counters os of
        Inl e \<Rightarrow> ((None, None), rd)
      | Inr None \<Rightarrow> ((None, None), rd)
      | Inr (Some io) \<Rightarrow>
          (let now = time_time os in
           case (dr_last rd, dr_last_t rd) of
             (Some l, Some lt) \<Rightarrow>
               (let dt = max (1 / 1000) (now - lt);
                    read_bps = real_of_int (read_bytes io - read_bytes l) / dt;
                    write_bps = real_of_int (write_bytes io - write_bytes l) / dt;
                    r = read_bps / (1024 * 1024);
                    w = write_bps / (1024 * 1024)
                in ((Some (if r < 0 then 0 else r), Some (if w < 0 then 0 else w)),
                    rd\<lparr>dr_last := Some io, dr_last_t := Some now\<rparr>))
           | _ \<Rightarrow> ((Some 0, Some 0), rd\<lparr>dr_last := Some io, dr_last_t := Some now\<rparr>)))"

record RateState =
  last_ts :: real
  last_disk_read :: int
  last_disk_write :: int
  last_net_sent :: int
  last_net_recv :: int

text \<open>The dictionary \<open>PsutilReader.read\<close> returns has a fixed set of keys.\<close>

record psutil_sample =
  cpu_usage :: "real option"
  cpu_freq_psutil :: "real option"
  ram_usage :: "real option"
  ram_used_gb :: "real option"
  ram_avail_gb :: "real option"
  disk_read_mb_s :: "real option"
  disk_write_mb_s :: "real option"
  net_up_mb_s :: "real option"
  net_down_mb_s :: "real option"

text \<open>
  \<open>PsutilReader.read\<close> has no \<open>try\<close>: an exception of any of its five \<open>psutil\<close>
  calls leaves the function. The calls are made in the order of the source (disk, network,
  cpu percent, cpu frequency, memory). The state a raising call leaves behind is not part
  of the result.
\<close>

definition psutil_read :: "os_calls \<Rightarrow> RateState \<Rightarrow> py_exception + (psutil_sample \<times> RateState)" where
  "psutil_read os st =
     (let now = time_time os;
          dt = max (1 / 1000) (now - last_ts st)
      in case disk_io_counters os of Inl e \<Rightarrow> Inl e | Inr d \<Rightarrow>
         (case net_io_counters os of Inl e \<Rightarrow> Inl e | Inr n \<Rightarrow>
         (let disk_read_bps =
                (case d of None \<Rightarrow> None
                 | Some dc \<Rightarrow> Some (real_of_int (read_bytes dc - last_disk_read st) / dt));
              disk_write_bps =
                (case d of None \<Rightarrow> None
                 | Some dc \<Rightarrow> Some (real_of_int (write_bytes dc - last_disk_write st) / dt));
              st1 = (case d of None \<Rightarrow> st
                 | Some dc \<Rightarrow> st\<lparr>last_disk_read := read_bytes dc, last_disk_write := write_bytes dc\<rparr>);
              up_bps =
                (case n of None \<Rightarrow> None
                 | Some nc \<Rightarrow> Some (real_of_int (bytes_sent nc - last_net_sent st1) / dt));
              down_bps =
                (case n of None \<Rightarrow> None
                 | Some nc \<Rightarrow> Some (real_of_int (bytes_recv nc - last_net_recv st1) / dt));
              st2 = (case n of None \<Rightarrow> st1
                 | Some nc \<Rightarrow> st1\<lparr>last_net_sent := bytes_sent nc, last_net_recv := bytes_recv nc\<rparr>);
              st3 = st2\<lparr>last_ts := now\<rparr>
          in case cpu_percent os of Inl e \<Rightarrow> Inl e | Inr cp \<Rightarrow>
             (case cpu_freq os of Inl e \<Rightarrow> Inl e | Inr cf \<Rightarrow>
             (case virtual_memory os of Inl e \<Rightarrow> Inl e | Inr vm \<Rightarrow>
                Inr (\<lparr>cpu_usage = cp,
                      cpu_freq_psutil =
                        (case cf of None \<Rightarrow> None
                         | Some f \<Rightarrow> if current f \<noteq> 0 then Some (current f) else None),
                      ram_usage = map_option percent vm,
                      ram_used_gb = map_option (\<lambda>v. real_of_int (used v) / 1024 ^ 3) vm,
                      ram_avail_gb = map_option (\<lambda>v. real_of_int (available v) / 1024 ^ 3) vm,
                      disk_read_mb_s = map_option (\<lambda>b. b / 1024 ^ 2) disk_read_bps,
                      disk_write_mb_s = map_option (\<lambda>b. b / 1024 ^ 2) disk_write_bps,
                      net_up_mb_s = map_option (\<lambda>b. b / 1024 ^ 2) up_bps,
                      net_down_mb_s = map_option (\<lambda>b. b / 1024 ^ 2) down_bps\<rparr>,
                     st3))))))"

section \<open>Rectangles and clamping\<close>

text \<open>
  \<open>QRect(x, y, w, h)\<close> with the accessors of Qt the program calls: \<open>right\<close> and
  \<open>bottom\<close> are the last pixel column and row, and \<open>center\<close> halves the sum of the two
  edges with the division of C++, which rounds towards zero.
\<close>

record QRect =
  rect_x :: int
  rect_y :: int
  rect_width :: int
  rect_height :: int

definition rect_left :: "QRect \<Rightarrow> int" where
  "rect_left r = rect_x r"

definition rect_top :: "QRect \<Rightarrow> int" where
  "rect_top r = rect_y r"

definition rect_right :: "QRect \<Rightarrow> int" where
  "rect_right r = rect_x r + rect_width r - 1"

definition rect_bottom :: "QRect \<Rightarrow> int" where
  "rect_bottom r = rect_y r + rect_height r - 1"

definition cpp_div :: "int \<Rightarrow> int \<Rightarrow> int" where
  "cpp_div a b = sgn a * sgn b * (\<bar>a\<bar> div \<bar>b\<bar>)"

definition rect_center_x :: "QRect \<Rightarrow> int" where
  "rect_center_x r = cpp_div (rect_left r + rect_right r) 2"

text \<open>A \<open>QRect\<close> is false in a Python condition when it is null (no width and no height).\<close>

definition rect_is_null :: "QRect \<Rightarrow> bool" where
  "rect_is_null r = (rect_width r = 0 \<and> rect_height r = 0)"

text \<open>\<open>clamp(n, a, b) = max(a, min(b, n))\<close>.\<close>

definition clamp :: "int \<Rightarrow> int \<Rightarrow> int \<Rightarrow> int" where
  "clamp n a b = max a (min b n)"

text \<open>\<open>int(x)\<close> of a float: the fraction is dropped.\<close>

definition py_int :: "real \<Rightarrow> int" where
  "py_int x = (if 0 \<le> x then \<lfloor>x\<rfloor> else \<lceil>x\<rceil>)"

section \<open>The overlay (\<open>main.py\<close>, class \<open>Overlay\<close>)\<close>

definition EDGE_SAFE_PX :: int where
  "EDGE_SAFE_PX = 20"

definition NET_SAT_MB_S :: real where
  "NET_SAT_MB_S = 50"

definition EXPANDED_OPACITY :: real where
  "EXPANDED_OPACITY = 1"

definition COLLAPSED_OPACITY :: real where
  "COLLAPSED_OPACITY = 86 / 100"

definition COLLAPSED_MIN_H :: int where
  "COLLAPSED_MIN_H = 64"

definition COLLAPSED_MAX_H_RATIO :: real where
  "COLLAPSED_MAX_H_RATIO = 55 / 100"

definition COLLAPSED_MIN_W :: int where
  "COLLAPSED_MIN_W = 22"

definition COLLAPSED_MAX_W :: int where
  "COLLAPSED_MAX_W = 52"

text \<open>
  The calls the program makes on its \<open>QParallelAnimationGroup\<close>, logged in order.
\<close>

datatype group_call = Stop | Start

text \<open>
  The fields of \<open>Overlay\<close> the modelled methods read or write, followed by the state the
  widget and its animation objects hold on the Qt side: the window geometry and opacity
  (\<open>self.geometry()\<close>, \<open>self.windowOpacity()\<close>), the start and end values of the two
  property animations, and the log of calls on the animation group. Labels, settings,
  tray and timers are left out.
\<close>

record Overlay =
  expanded_geo :: "QRect option"
  collapsed :: bool
  dock_side :: string
  psr :: RateState
  disk_rate :: DiskRateReader
  phrases :: phrase_state
  last_cpu :: "real option"
  last_gpu :: "real option"
  last_ram :: "real option"
  last_disk_r :: "real option"
  last_disk_w :: "real option"
  last_up :: "real option"
  last_down :: "real option"
  anim_target_collapsed :: "bool option"
  anim_inflight :: bool
  geometry :: QRect
  window_opacity :: real
  geo_anim_start :: "QRect option"
  geo_anim_end :: "QRect option"
  opa_anim_start :: "real option"
  opa_anim_end :: "real option"
  anim_group_calls :: "group_call list"

text \<open>The font metrics of the mood label: line height and the width of one character.\<close>

record QFontMetrics =
  fm_height :: int
  fm_bounding_width :: "nat \<Rightarrow> int"

definition is_effectively_collapsed :: "Overlay \<Rightarrow> bool" where
  "is_effectively_collapsed s =
     (case (anim_inflight s, anim_target_collapsed s) of
        (True, Some b) \<Rightarrow> b
      | _ \<Rightarrow> collapsed s)"

definition on_anim_finished :: "Overlay \<Rightarrow> Overlay" where
  "on_anim_finished s =
     (let s1 = s\<lparr>anim_inflight := False\<rparr>;
          s2 = (if anim_target_collapsed s1 = Some True
                  then s1\<lparr>collapsed := True, window_opacity := COLLAPSED_OPACITY\<rparr>
                else if anim_target_collapsed s1 = Some False
                  then s1\<lparr>collapsed := False, window_opacity := EXPANDED_OPACITY\<rparr>
                else s1)
      in s2\<lparr>anim_target_collapsed := None\<rparr>)"

definition start_anim :: "QRect \<Rightarrow> QRect \<Rightarrow> real \<Rightarrow> real \<Rightarrow> bool \<Rightarrow> Overlay \<Rightarrow> Overlay" where
  "start_anim start_geo end_geo start_op end_op target_collapsed s =
     (let s1 = (if anim_inflight s
                then s\<lparr>anim_group_calls := anim_group_calls s @ [Stop]\<rparr> else s)
      in s1\<lparr>anim_inflight := True,
             anim_target_collapsed := Some target_collapsed,
             geo_anim_start := Some start_geo,
             geo_anim_end := Some end_geo,
             opa_anim_start := Some start_op,
             opa_anim_end := Some end_op,
             anim_group_calls := anim_group_calls s1 @ [Start]\<rparr>)"

text \<open>The screen \<open>scr\<close> is \<open>QApplication.primaryScreen().availableGeometry()\<close>.\<close>

definition decide_nearest_side :: "QRect \<Rightarrow> QRect \<Rightarrow> string" where
  "decide_nearest_side scr rect =
     (if rect_center_x rect < (rect_left scr + rect_right scr) div 2 then ''left'' else ''right'')"

definition calc_collapsed_height_for_text :: "QRect \<Rightarrow> QFontMetrics \<Rightarrow> phrase \<Rightarrow> int" where
  "calc_collapsed_height_for_text scr fm mood_text =
     (let max_h = py_int (real_of_int (rect_height scr) * COLLAPSED_MAX_H_RATIO);
          n = max 1 (int (length mood_text));
          line_h = fm_height fm;
          pad = 30;
          h = pad + py_int (real_of_int (n * line_h) * (105 / 100))
      in clamp h COLLAPSED_MIN_H max_h)"

definition calc_collapsed_width_for_text :: "QFontMetrics \<Rightarrow> phrase \<Rightarrow> int" where
  "calc_collapsed_width_for_text fm mood_text =
     (let max_char_w =
            fold (\<lambda>ch m. max m (fm_bounding_width fm ch))
              (if mood_text = [] then [32] else mood_text) 0;
          w = max_char_w + 18
      in clamp w COLLAPSED_MIN_W COLLAPSED_MAX_W)"

definition collapsed_rect_for :: "QRect \<Rightarrow> QRect \<Rightarrow> string \<Rightarrow> int \<Rightarrow> int \<Rightarrow> QRect" where
  "collapsed_rect_for scr expanded side collapsed_w collapsed_h =
     (let y = clamp (rect_y expanded) (rect_top scr + EDGE_SAFE_PX)
                (rect_bottom scr - collapsed_h - EDGE_SAFE_PX);
          x = (if side = ''left'' then rect_left scr + EDGE_SAFE_PX
               else rect_right scr - collapsed_w + 1 - EDGE_SAFE_PX)
      in \<lparr>rect_x = x, rect_y = y, rect_width = collapsed_w, rect_height = collapsed_h\<rparr>)"

text \<open>
  The local \<open>score\<close> of \<open>_compute_mood_phrase\<close>, and the method itself, which asks the
  phrase manager for the phrase of the score under the kind \<open>mood\<close>.
\<close>

definition mood_score :: "Overlay \<Rightarrow> real" where
  "mood_score s =
     (let cpu = (case last_cpu s of Some v \<Rightarrow> v | None \<Rightarrow> 0);
          gpu = (case last_gpu s of Some v \<Rightarrow> v | None \<Rightarrow> 0);
          ram = (case last_ram s of Some v \<Rightarrow> v | None \<Rightarrow> 0);
          dr = (case last_disk_r s of Some v \<Rightarrow> v | None \<Rightarrow> 0);
          dw = (case last_disk_w s of Some v \<Rightarrow> v | None \<Rightarrow> 0);
          disk_mb_s = dr + dw;
          disk_norm = min 100 ((disk_mb_s / 200) * 100);
          up = (case last_up s of Some v \<Rightarrow> v | None \<Rightarrow> 0);
          down = (case last_down s of Some v \<Rightarrow> v | None \<Rightarrow> 0);
          net = up + down;
          net_norm = min 100 ((net / max (1 / 1000000) NET_SAT_MB_S) * 100);
          score = (28 / 100) * cpu + (28 / 100) * gpu + (22 / 100) * ram
                    + (10 / 100) * disk_norm + (12 / 100) * net_norm
      in max 0 (min 100 score))"

definition compute_mood_phrase ::
  "nat \<times> nat \<Rightarrow> Overlay \<Rightarrow> py_exception + (phrase \<times> Overlay)" where
  "compute_mood_phrase draws s =
     (case get ''mood'' (Some (mood_score s)) MOOD_BUCKETS draws (phrases s) of
        Inl e \<Rightarrow> Inl e
      | Inr (p, st) \<Rightarrow> Inr (p, s\<lparr>phrases := st\<rparr>))"

text \<open>
  \<open>collapse_to_edge_animated\<close> and \<open>expand_animated\<close>. An exception of the phrase
  manager would leave \<open>collapse_to_edge_animated\<close> after its first two assignments; the
  result then is the exception alone.
\<close>

definition collapse_to_edge_animated ::
  "QRect \<Rightarrow> QFontMetrics \<Rightarrow> nat \<times> nat \<Rightarrow> Overlay \<Rightarrow> py_exception + Overlay" where
  "collapse_to_edge_animated scr fm draws s =
     (if collapsed s then Inr s
      else
        (let s1 = s\<lparr>expanded_geo := Some (geometry s)\<rparr>;
             s2 = s1\<lparr>dock_side := decide_nearest_side scr (geometry s)\<rparr>
         in case compute_mood_phrase draws s2 of
              Inl e \<Rightarrow> Inl e
            | Inr (mood, s3) \<Rightarrow>
                (let s4 = s3\<lparr>anim_target_collapsed := Some True, collapsed := True\<rparr>;
                     collapsed_h = calc_collapsed_height_for_text scr fm mood;
                     collapsed_w = calc_collapsed_width_for_text fm mood;
                     start_geo = geometry s4;
                     end_geo = collapsed_rect_for scr (geometry s) (dock_side s4)
                                 collapsed_w collapsed_h;
                     start_op = (if 0 < window_opacity s4 then window_opacity s4
                                 else EXPANDED_OPACITY);
                     end_op = COLLAPSED_OPACITY
                 in Inr (start_anim start_geo end_geo start_op end_op True s4))))"

definition expand_animated :: "QRect \<Rightarrow> Overlay \<Rightarrow> Overlay" where
  "expand_animated scr s =
     (if \<not> collapsed s then s
      else
        (let g = (case expanded_geo s of
                    None \<Rightarrow>
                      \<lparr>rect_x = rect_right scr - 270, rect_y = rect_top scr + 40,
                       rect_width = 270, rect_height = 178\<rparr>
                  | Some r \<Rightarrow>
                      if rect_is_null r
                      then \<lparr>rect_x = rect_right scr - 270, rect_y = rect_top scr + 40,
                            rect_width = 270, rect_height = 178\<rparr>
                      else r);
             s1 = s\<lparr>expanded_geo := Some g\<rparr>;
             s2 = s1\<lparr>anim_target_collapsed := Some False, collapsed := False\<rparr>;
             end_geo =
               \<lparr>rect_x = clamp (rect_x g) (rect_left scr) (rect_right scr - rect_width g),
                rect_y = clamp (rect_y g) (rect_top scr) (rect_bottom scr - rect_height g),
                rect_width = rect_width g, rect_height = rect_height g\<rparr>;
             start_geo = geometry s2;
             start_op = (if 0 < window_opacity s2 then window_opacity s2
                         else COLLAPSED_OPACITY);
             end_op = EXPANDED_OPACITY
         in start_anim start_geo end_geo start_op end_op False s2))"

text \<open>
  What one refresh tick meets outside the program: the outcome of \<open>LhmReader.read()\<close>
  (an exception of the hardware library, or the entry \<open>gpu_load\<close> of its dictionary, the
  only one the overlay reads), \<open>psutil\<close> as \<open>PsutilReader.read\<close>, the fallback calls
  of \<open>refresh\<close> and \<open>DiskRateReader.read\<close> see it, and the numbers the random
  generator draws for each phrase.
\<close>

record tick_env =
  lhm_read :: "py_exception + real option"
  psr_os :: os_calls
  fallback_os :: os_calls
  disk_os :: os_calls
  draws_cpu :: "nat \<times> nat"
  draws_gpu :: "nat \<times> nat"
  draws_ram :: "nat \<times> nat"
  draws_disk :: "nat \<times> nat"
  draws_mood :: "nat \<times> nat"

text \<open>
  \<open>Overlay.refresh\<close>. The two reader calls at its top are not inside a \<open>try\<close>; the
  fallback calls for cpu and memory are. The text lines written to the panel are left
  out; the state a raising tick leaves behind is not part of the result.
\<close>

definition refresh :: "tick_env \<Rightarrow> Overlay \<Rightarrow> py_exception + Overlay" where
  "refresh env s =
     (case lhm_read env of Inl e \<Rightarrow> Inl e | Inr gpu_load \<Rightarrow>
      (case psutil_read (psr_os env) (psr s) of Inl e \<Rightarrow> Inl e | Inr (psu, st) \<Rightarrow>
      (let s1 = s\<lparr>psr := st\<rparr>;
           cpu = (case cpu_usage psu of
                    Some c \<Rightarrow> Some c
                  | None \<Rightarrow>
                      (case cpu_percent (fallback_os env) of
                         Inr (Some c) \<Rightarrow> Some c
                       | _ \<Rightarrow> Some 0));
           gpu = gpu_load;
           ram = (case ram_usage psu of
                    Some r \<Rightarrow> Some r
                  | None \<Rightarrow>
                      (case virtual_memory (fallback_os env) of
                         Inr (Some vm) \<Rightarrow> Some (percent vm)
                       | _ \<Rightarrow> None))
       in case disk_rate_read (disk_os env) (disk_rate s1) of
            ((disk_r, disk_w), rd) \<Rightarrow>
       (let s2 = s1\<lparr>disk_rate := rd,
                     last_cpu := cpu, last_gpu := gpu, last_ram := ram,
                     last_disk_r := disk_r, last_disk_w := disk_w,
                     last_up := net_up_mb_s psu, last_down := net_down_mb_s psu\<rparr>
        in case get ''cpu'' cpu CPU_BUCKETS (draws_cpu env) (phrases s2) of
             Inl e \<Rightarrow> Inl e | Inr (cpu_txt, p1) \<Rightarrow>
          (case get ''gpu'' gpu GPU_BUCKETS (draws_gpu env) p1 of
             Inl e \<Rightarrow> Inl e | Inr (gpu_txt, p2) \<Rightarrow>
          (case get ''ram'' ram RAM_BUCKETS (draws_ram env) p2 of
             Inl e \<Rightarrow> Inl e | Inr (ram_txt, p3) \<Rightarrow>
          (let disk_total = (case (disk_r, disk_w) of
                               (Some r, Some w) \<Rightarrow> Some (r + w)
                             | _ \<Rightarrow> None)
           in case get ''disk_io'' disk_total DISK_IO_BUCKETS (draws_disk env) p3 of
                Inl e \<Rightarrow> Inl e | Inr (disk_txt, p4) \<Rightarrow>
             (let s3 = s2\<lparr>phrases := p4\<rparr>
              in if \<not> is_effectively_collapsed s3 then Inr s3
                 else (case compute_mood_phrase (draws_mood env) s3 of
                         Inl e \<Rightarrow> Inl e
                       | Inr (mood, s4) \<Rightarrow> Inr s4)))))))))"

text \<open>
  The state \<open>Overlay.__init__\<close> sets up before its first refresh: expanded, docked to
  the right by default, no reading yet, no animation, full opacity. The geometry the
  window gets from \<open>_restore_or_default_pos\<close> and the counters \<open>PsutilReader\<close> reads at
  construction are arguments.
\<close>

definition overlay_init :: "QRect \<Rightarrow> RateState \<Rightarrow> Overlay" where
  "overlay_init geo rs =
     \<lparr>expanded_geo = None,
      collapsed = False,
      dock_side = ''right'',
      psr = rs,
      disk_rate = \<lparr>dr_last = None, dr_last_t = None\<rparr>,
      phrases = Map.empty,
      last_cpu = None, last_gpu = None, last_ram = None,
      last_disk_r = None, last_disk_w = None,
      last_up = None, last_down = None,
      anim_target_collapsed = None,
      anim_inflight = False,
      geometry = geo,
      window_opacity = EXPANDED_OPACITY,
      geo_anim_start = None, geo_anim_end = None,
      opa_anim_start = None, opa_anim_end = None,
      anim_group_calls = []\<rparr>"

text \<open>
  While the animation group runs, Qt writes the two animated properties of the window,
  \<open>geometry\<close> and \<open>windowOpacity\<close>, at every frame. The values are the engine's
  (interpolated between the start and end values with the easing curves); here they are
  arguments, and a frame changes nothing else.
\<close>

definition anim_frame :: "QRect \<Rightarrow> real \<Rightarrow> Overlay \<Rightarrow> Overlay" where
  "anim_frame g opacity s = s\<lparr>geometry := g, window_opacity := opacity\<rparr>"

text \<open>A run of frames, first to last.\<close>

primrec anim_frames :: "(QRect \<times> real) list \<Rightarrow> Overlay \<Rightarrow> Overlay" where
  "anim_frames [] s = s"
| "anim_frames (f # fs) s = anim_frames fs (anim_frame (fst f) (snd f) s)"

section \<open>A concrete setting\<close>

text \<open>
  Inputs at which the theorems below are instantiated: a work area of 1920 by 1040
  pixels, a font whose lines are 18 pixels high and whose characters are 14 wide, and the
  overlay as constructed, 270 by 178 pixels at the top right.
\<close>

definition example_screen :: QRect where
  "example_screen = \<lparr>rect_x = 0, rect_y = 0, rect_width = 1920, rect_height = 1040\<rparr>"

definition example_font :: QFontMetrics where
  "example_font = \<lparr>fm_height = 18, fm_bounding_width = (\<lambda>ch. 14)\<rparr>"

definition example_overlay :: Overlay where
  "example_overlay =
     overlay_init \<lparr>rect_x = 1640, rect_y = 10, rect_width = 270, rect_height = 178\<rparr>
       \<lparr>last_ts = 0, last_disk_read = 0, last_disk_write = 0,
        last_net_sent = 0, last_net_recv = 0\<rparr>"

section \<open>Properties of the bucket lookup\<close>

lemma pick_scan_none:
  "\<forall>b \<in> set bs. usage < fst b \<Longrightarrow> pick_scan bs usage i = None"
  by (induction bs usage i rule: pick_scan.induct) auto

lemma pick_scan_mem:
  "pick_scan bs usage i = Some (k, texts) \<Longrightarrow> \<exists>lo hi. (lo, hi, texts) \<in> set bs"
  by (induction bs usage i rule: pick_scan.induct) (auto split: if_splits)

lemma pick_bucket_mem:
  assumes "pick_bucket bs usage = Inr (k, texts)"
  shows "\<exists>lo hi. (lo, hi, texts) \<in> set bs"
proof (cases "pick_scan bs usage 0")
  case None
  with assms have ne: "bs \<noteq> []" and t: "texts = snd (snd (last bs))"
    by (auto simp: pick_bucket_def split: if_splits)
  from ne have "last bs \<in> set bs" by simp
  moreover have "last bs = (fst (last bs), fst (snd (last bs)), texts)"
    using t by simp
  ultimately show ?thesis by metis
next
  case (Some r)
  with assms have "pick_scan bs usage 0 = Some (k, texts)"
    by (simp add: pick_bucket_def)
  then show ?thesis by (rule pick_scan_mem)
qed

lemma pick_bucket_total: "bs \<noteq> [] \<Longrightarrow> \<exists>k texts. pick_bucket bs usage = Inr (k, texts)"
  by (cases "pick_scan bs usage 0") (auto simp: pick_bucket_def)

text \<open>
  Claim C10. In a table none of whose buckets starts below the first one (every table
  sorted by lower bound is such a table, and so are the five of the program), a value
  strictly below the first lower bound matches no bucket of the scan, and the lookup
  falls through to the index and the phrase list of the last bucket.
\<close>

theorem pick_bucket_below_first:
  assumes "bs \<noteq> []"
    and "\<forall>b \<in> set bs. fst (hd bs) \<le> fst b"
    and "usage < fst (hd bs)"
  shows "pick_scan bs usage 0 = None \<and>
         pick_bucket bs usage = Inr (int (length bs) - 1, snd (snd (last bs)))"
proof -
  have "pick_scan bs usage 0 = None"
    using assms(2,3) by (intro pick_scan_none) force
  with assms(1) show ?thesis by (simp add: pick_bucket_def)
qed

theorem pick_bucket_below_first_witness:
  "CPU_BUCKETS \<noteq> [] \<and> (- 1 :: real) < fst (hd CPU_BUCKETS) \<and>
   pick_scan CPU_BUCKETS (- 1) 0 = None \<and>
   pick_bucket CPU_BUCKETS (- 1) =
     Inr (4, [[24555, 20882, 28895, 20102, 32, 128293],
              [21035, 20877, 21152, 20219, 21153, 20102, 32, 128565],
              [39118, 25159, 36215, 39134, 32, 9992, 65039]])"
  using pick_bucket_below_first [of CPU_BUCKETS "- 1"]
  by (simp add: CPU_BUCKETS_def)

section \<open>Properties of the phrase manager\<close>

text \<open>
  Claim C8. For every kind, table, draw and stored state, \<open>get\<close> with a missing value
  returns the sentinel and the state it was given.
\<close>

theorem get_none_sentinel:
  "get kind None bs draws st = Inr (NO_DATA, st)"
  by (simp add: get_def)

lemma get_stores:
  assumes "get kind (Some v) bs d st = Inr (p, st')"
    and "pick_bucket bs v = Inr (i, t)"
  shows "st' kind = Some (Some i, p)"
  using assms
  by (auto simp: get_def split: option.splits sum.splits if_splits prod.splits)

lemma get_hit:
  assumes "st kind = Some (Some i, p)" and "p \<noteq> []"
    and "pick_bucket bs v = Inr (i, t)"
  shows "get kind (Some v) bs d st = Inr (p, st)"
  using assms by (simp add: get_def)

text \<open>
  Claim C5, as stated, fails: the method keeps the stored phrase only if that phrase is
  a non-empty string (the test \<open>and last_phrase\<close>). With a table whose second bucket
  offers the empty string, the calls for 15 and for 16, both in bucket 1, return the
  empty string and then another phrase.
\<close>

theorem get_hysteresis_counterexample:
  "get ''cpu'' (Some 5) [(0, 10, [[97]]), (10, 20, [[], [98]])] (0, 0) Map.empty
     = Inr ([97], [''cpu'' \<mapsto> (Some 0, [97])]) \<and>
   pick_bucket [(0, 10, [[97]]), (10, 20, [[], [98]])] 15 = Inr (1, [[], [98]]) \<and>
   pick_bucket [(0, 10, [[97]]), (10, 20, [[], [98]])] 16 = Inr (1, [[], [98]]) \<and>
   get ''cpu'' (Some 15) [(0, 10, [[97]]), (10, 20, [[], [98]])] (0, 0)
       [''cpu'' \<mapsto> (Some 0, [97])]
     = Inr ([], [''cpu'' \<mapsto> (Some 1, [])]) \<and>
   get ''cpu'' (Some 16) [(0, 10, [[97]]), (10, 20, [[], [98]])] (1, 0)
       [''cpu'' \<mapsto> (Some 1, [])]
     = Inr ([98], [''cpu'' \<mapsto> (Some 1, [98])])"
  by (simp add: get_def pick_bucket_def random_choice_def)

text \<open>
  Claim C5, amended. If \<open>get\<close> returns a non-empty phrase for \<open>v1\<close>, and \<open>v2\<close> falls
  into the bucket of the same index, then the next \<open>get\<close> for the same kind and table
  returns the same phrase, whatever the generator draws, and leaves the state as it is.
\<close>

theorem get_hysteresis:
  assumes "get kind (Some v1) bs d1 st = Inr (p, st')"
    and "pick_bucket bs v1 = Inr (i, t1)"
    and "pick_bucket bs v2 = Inr (i, t2)"
    and "p \<noteq> []"
  shows "get kind (Some v2) bs d2 st' = Inr (p, st')"
proof -
  from assms(1,2) have "st' kind = Some (Some i, p)" by (rule get_stores)
  from this assms(4,3) show ?thesis by (rule get_hit)
qed

theorem get_hysteresis_witness:
  "get ''cpu'' (Some 45) CPU_BUCKETS (0, 0) Map.empty =
     Inr ([35748, 30495, 24178, 27963, 20013, 32, 128736, 65039],
          [''cpu'' \<mapsto> (Some 2, [35748, 30495, 24178, 27963, 20013, 32, 128736, 65039])]) \<and>
   get ''cpu'' (Some 50) CPU_BUCKETS (1, 2)
       [''cpu'' \<mapsto> (Some 2, [35748, 30495, 24178, 27963, 20013, 32, 128736, 65039])] =
     Inr ([35748, 30495, 24178, 27963, 20013, 32, 128736, 65039],
          [''cpu'' \<mapsto> (Some 2, [35748, 30495, 24178, 27963, 20013, 32, 128736, 65039])])"
proof -
  let ?p = "[35748, 30495, 24178, 27963, 20013, 32, 128736, 65039] :: phrase"
  let ?t = "snd (snd (CPU_BUCKETS ! 2))"
  have h1: "get ''cpu'' (Some 45) CPU_BUCKETS (0, 0) Map.empty =
              Inr (?p, [''cpu'' \<mapsto> (Some 2, ?p)])"
    by (simp add: get_def pick_bucket_def random_choice_def CPU_BUCKETS_def)
  have h2: "pick_bucket CPU_BUCKETS 45 = Inr (2, ?t)"
    by (simp add: pick_bucket_def CPU_BUCKETS_def)
  have h3: "pick_bucket CPU_BUCKETS 50 = Inr (2, ?t)"
    by (simp add: pick_bucket_def CPU_BUCKETS_def)
  have h4: "?p \<noteq> []" by simp
  from get_hysteresis [OF h1 h2 h3 h4, of "(1, 2)"] h1 show ?thesis by simp
qed

text \<open>
  On a table that is not empty and whose buckets offer distinct, non-empty phrases, \<open>get\<close>
  never raises and returns a non-empty phrase. The mood table is such a table.
\<close>

lemma random_choice_mem:
  "xs \<noteq> [] \<Longrightarrow> \<exists>x. random_choice r xs = Inr x \<and> x \<in> set xs"
  by (simp add: random_choice_def)

lemma filter_other_nonempty:
  assumes "distinct xs" and "1 < length xs"
  shows "filter (\<lambda>t. t \<noteq> y) xs \<noteq> []"
proof
  assume "filter (\<lambda>t. t \<noteq> y) xs = []"
  then have "\<forall>x \<in> set xs. x = y" by (simp add: filter_empty_conv)
  then have "set xs \<subseteq> {y}" by auto
  then have "card (set xs) \<le> 1" by (metis card_mono finite.emptyI finite_insert card_1_singleton_iff is_singletonI is_singleton_altdef)
  with assms show False by (simp add: distinct_card)
qed

lemma get_total:
  assumes "bs \<noteq> []"
    and "\<forall>b \<in> set bs. snd (snd b) \<noteq> [] \<and> distinct (snd (snd b)) \<and> [] \<notin> set (snd (snd b))"
  shows "\<exists>p st'. get kind (Some v) bs d st = Inr (p, st') \<and> p \<noteq> []"
proof -
  from assms(1) obtain k texts where pb: "pick_bucket bs v = Inr (k, texts)"
    using pick_bucket_total by blast
  then obtain lo hi where "(lo, hi, texts) \<in> set bs"
    using pick_bucket_mem by blast
  with assms(2) have ne: "texts \<noteq> []" and di: "distinct texts" and nn: "[] \<notin> set texts"
    by force+
  obtain last_idx last_phrase where lp:
    "(case st kind of None \<Rightarrow> (None, []) | Some q \<Rightarrow> q) = (last_idx, last_phrase)"
    by (cases "case st kind of None \<Rightarrow> (None, []) | Some q \<Rightarrow> q") auto
  from ne obtain x where x: "random_choice (fst d) texts = Inr x" "x \<in> set texts"
    using random_choice_mem by blast
  show ?thesis
  proof (cases "last_idx = Some k \<and> last_phrase \<noteq> []")
    case True
    with pb lp show ?thesis by (simp add: get_def)
  next
    case False
    note hyst = this
    show ?thesis
    proof (cases "x = last_phrase \<and> 1 < length texts")
      case True
      with di have "filter (\<lambda>t. t \<noteq> last_phrase) texts \<noteq> []"
        by (simp add: filter_other_nonempty)
      then obtain y where y: "random_choice (snd d) (filter (\<lambda>t. t \<noteq> last_phrase) texts) = Inr y"
        "y \<in> set (filter (\<lambda>t. t \<noteq> last_phrase) texts)"
        using random_choice_mem by blast
      then have "y \<noteq> []" using nn by auto
      with pb lp hyst x True y show ?thesis by (auto simp: get_def)
    next
      case False
      from x nn have "x \<noteq> []" by auto
      with pb lp hyst x False show ?thesis by (auto simp: get_def)
    qed
  qed
qed

lemma MOOD_BUCKETS_ok:
  "MOOD_BUCKETS \<noteq> [] \<and>
   (\<forall>b \<in> set MOOD_BUCKETS. snd (snd b) \<noteq> [] \<and> distinct (snd (snd b)) \<and> [] \<notin> set (snd (snd b)))"
  by (simp add: MOOD_BUCKETS_def)

lemma compute_mood_phrase_total:
  "\<exists>p st. compute_mood_phrase d s = Inr (p, s\<lparr>phrases := st\<rparr>)"
proof -
  from MOOD_BUCKETS_ok obtain p st where
    "get ''mood'' (Some (mood_score s)) MOOD_BUCKETS d (phrases s) = Inr (p, st)"
    using get_total [of MOOD_BUCKETS] by blast
  then show ?thesis by (auto simp: compute_mood_phrase_def)
qed

text \<open>
  The five tables of the program are not empty, their buckets offer distinct, non-empty
  phrases, and none of their buckets starts below the first. On such a table two
  consecutive calls of \<open>get\<close> for values of one bucket return the same phrase.
\<close>

lemma program_tables_ok:
  assumes "bs \<in> {CPU_BUCKETS, GPU_BUCKETS, RAM_BUCKETS, DISK_IO_BUCKETS, MOOD_BUCKETS}"
  shows "bs \<noteq> []"
    and "\<forall>b \<in> set bs. snd (snd b) \<noteq> [] \<and> distinct (snd (snd b)) \<and> [] \<notin> set (snd (snd b))"
    and "\<forall>b \<in> set bs. fst (hd bs) \<le> fst b"
  using assms
  by (auto simp: CPU_BUCKETS_def GPU_BUCKETS_def RAM_BUCKETS_def DISK_IO_BUCKETS_def
        MOOD_BUCKETS_def)

lemma get_twice_on_ok_table:
  assumes "bs \<noteq> []"
    and "\<forall>b \<in> set bs. snd (snd b) \<noteq> [] \<and> distinct (snd (snd b)) \<and> [] \<notin> set (snd (snd b))"
    and "pick_bucket bs v1 = Inr (i, t1)"
    and "pick_bucket bs v2 = Inr (i, t2)"
  shows "\<exists>p st'. get kind (Some v1) bs d1 st = Inr (p, st') \<and>
                  get kind (Some v2) bs d2 st' = Inr (p, st')"
proof -
  from get_total [OF assms(1,2)] obtain p st' where
    g: "get kind (Some v1) bs d1 st = Inr (p, st')" and ne: "p \<noteq> []"
    by blast
  from g assms(3) have "st' kind = Some (Some i, p)" by (rule get_stores)
  from this ne assms(4) have "get kind (Some v2) bs d2 st' = Inr (p, st')" by (rule get_hit)
  with g show ?thesis by blast
qed

section \<open>Properties of the transitions\<close>

text \<open>
  What \<open>collapse_to_edge_animated\<close> returns from an expanded state: it never raises,
  and the animation it starts is configured from the state it was called in.
\<close>

lemma collapse_result:
  assumes "\<not> collapsed s"
  shows "\<exists>st mood. collapse_to_edge_animated scr fm d s =
     Inr (start_anim (geometry s)
            (collapsed_rect_for scr (geometry s) (decide_nearest_side scr (geometry s))
               (calc_collapsed_width_for_text fm mood)
               (calc_collapsed_height_for_text scr fm mood))
            (if 0 < window_opacity s then window_opacity s else EXPANDED_OPACITY)
            COLLAPSED_OPACITY True
            (s\<lparr>expanded_geo := Some (geometry s),
               dock_side := decide_nearest_side scr (geometry s),
               phrases := st,
               anim_target_collapsed := Some True,
               collapsed := True\<rparr>))"
proof -
  let ?s2 = "s\<lparr>expanded_geo := Some (geometry s),
                dock_side := decide_nearest_side scr (geometry s)\<rparr>"
  obtain p st where c: "compute_mood_phrase d ?s2 = Inr (p, ?s2\<lparr>phrases := st\<rparr>)"
    using compute_mood_phrase_total by blast
  show ?thesis
    using assms c by (auto simp: collapse_to_edge_animated_def Let_def)
qed

lemma collapse_fields:
  assumes "\<not> collapsed s"
  shows "\<exists>s'. collapse_to_edge_animated scr fm d s = Inr s' \<and>
           anim_inflight s' \<and> anim_target_collapsed s' = Some True \<and> collapsed s' \<and>
           geo_anim_start s' = Some (geometry s) \<and>
           opa_anim_start s' = Some (if 0 < window_opacity s then window_opacity s else EXPANDED_OPACITY) \<and>
           opa_anim_end s' = Some COLLAPSED_OPACITY \<and>
           geometry s' = geometry s \<and> window_opacity s' = window_opacity s \<and>
           anim_group_calls s' =
             anim_group_calls s @ (if anim_inflight s then [Stop, Start] else [Start])"
proof -
  from collapse_result [OF assms, of scr fm d] obtain st mood where
    "collapse_to_edge_animated scr fm d s =
     Inr (start_anim (geometry s)
            (collapsed_rect_for scr (geometry s) (decide_nearest_side scr (geometry s))
               (calc_collapsed_width_for_text fm mood)
               (calc_collapsed_height_for_text scr fm mood))
            (if 0 < window_opacity s then window_opacity s else EXPANDED_OPACITY)
            COLLAPSED_OPACITY True
            (s\<lparr>expanded_geo := Some (geometry s),
               dock_side := decide_nearest_side scr (geometry s),
               phrases := st,
               anim_target_collapsed := Some True,
               collapsed := True\<rparr>))"
    by blast
  then show ?thesis by (simp add: start_anim_def Let_def)
qed

lemma expand_fields:
  assumes "collapsed s"
  shows "anim_inflight (expand_animated scr s) \<and>
         anim_target_collapsed (expand_animated scr s) = Some False \<and>
         \<not> collapsed (expand_animated scr s) \<and>
         geo_anim_start (expand_animated scr s) = Some (geometry s) \<and>
         opa_anim_start (expand_animated scr s) =
           Some (if 0 < window_opacity s then window_opacity s else COLLAPSED_OPACITY) \<and>
         opa_anim_end (expand_animated scr s) = Some EXPANDED_OPACITY \<and>
         geometry (expand_animated scr s) = geometry s \<and>
         window_opacity (expand_animated scr s) = window_opacity s \<and>
         anim_group_calls (expand_animated scr s) =
           anim_group_calls s @ (if anim_inflight s then [Stop, Start] else [Start])"
  using assms by (simp add: expand_animated_def start_anim_def Let_def)


lemma anim_frame_keeps:
  "anim_target_collapsed (anim_frame g opacity s) = anim_target_collapsed s"
  "anim_inflight (anim_frame g opacity s) = anim_inflight s"
  "collapsed (anim_frame g opacity s) = collapsed s"
  by (simp_all add: anim_frame_def)

lemma anim_frames_target: "anim_target_collapsed (anim_frames fs s) = anim_target_collapsed s"
  by (induction fs arbitrary: s) (simp_all add: anim_frame_keeps)

lemma anim_frames_inflight: "anim_inflight (anim_frames fs s) = anim_inflight s"
  by (induction fs arbitrary: s) (simp_all add: anim_frame_keeps)

lemma anim_frames_collapsed: "collapsed (anim_frames fs s) = collapsed s"
  by (induction fs arbitrary: s) (simp_all add: anim_frame_keeps)

lemma finished_fields:
  "(anim_target_collapsed s = Some True \<longrightarrow>
      collapsed (on_anim_finished s) \<and> window_opacity (on_anim_finished s) = COLLAPSED_OPACITY) \<and>
   (anim_target_collapsed s = Some False \<longrightarrow>
      \<not> collapsed (on_anim_finished s) \<and> window_opacity (on_anim_finished s) = EXPANDED_OPACITY) \<and>
   \<not> anim_inflight (on_anim_finished s) \<and>
   anim_target_collapsed (on_anim_finished s) = None"
  by (simp add: on_anim_finished_def Let_def)

text \<open>
  Claim C3, as stated, fails: \<open>collapse_to_edge_animated\<close> assigns \<open>self.collapsed = True\<close>
  before it starts the animation. From the initial, expanded state the call returns a
  state that is in flight and whose committed mode is already the target mode.
\<close>

theorem mode_during_flight_counterexample:
  "\<not> collapsed example_overlay \<and>
   \<not> isl (collapse_to_edge_animated example_screen example_font (0, 0) example_overlay) \<and>
   anim_inflight
     (projr (collapse_to_edge_animated example_screen example_font (0, 0) example_overlay)) \<and>
   collapsed
     (projr (collapse_to_edge_animated example_screen example_font (0, 0) example_overlay))"
proof -
  have n: "\<not> collapsed example_overlay"
    by (simp add: example_overlay_def overlay_init_def)
  from collapse_fields [OF n] n show ?thesis by (metis sum.disc(2) sum.sel(2))
qed

text \<open>
  Claim C3, amended. Both transitions commit the mode when they start the animation:
  the state they return is in flight, and its committed mode and its target mode are
  the new mode. Frames change none of the three fields. When the animation finishes,
  the mode is assigned from the target once more, which leaves it as it was.
\<close>

theorem mode_committed_at_start:
  "(\<not> collapsed s \<longrightarrow>
      (\<exists>s'. collapse_to_edge_animated scr fm d s = Inr s' \<and>
            anim_inflight s' \<and> anim_target_collapsed s' = Some True \<and> collapsed s')) \<and>
   (collapsed s \<longrightarrow>
      anim_inflight (expand_animated scr s) \<and>
      anim_target_collapsed (expand_animated scr s) = Some False \<and>
      \<not> collapsed (expand_animated scr s)) \<and>
   collapsed (anim_frames fs s) = collapsed s \<and>
   anim_target_collapsed (anim_frames fs s) = anim_target_collapsed s \<and>
   anim_inflight (anim_frames fs s) = anim_inflight s \<and>
   (anim_target_collapsed s = Some (collapsed s) \<longrightarrow>
      collapsed (on_anim_finished s) = collapsed s \<and>
      \<not> anim_inflight (on_anim_finished s) \<and>
      anim_target_collapsed (on_anim_finished s) = None)"
proof -
  have a: "\<not> collapsed s \<longrightarrow>
      (\<exists>s'. collapse_to_edge_animated scr fm d s = Inr s' \<and>
            anim_inflight s' \<and> anim_target_collapsed s' = Some True \<and> collapsed s')"
    using collapse_fields [of s scr fm d] by blast
  have b: "collapsed s \<longrightarrow>
      anim_inflight (expand_animated scr s) \<and>
      anim_target_collapsed (expand_animated scr s) = Some False \<and>
      \<not> collapsed (expand_animated scr s)"
    using expand_fields [of s scr] by blast
  have c: "anim_target_collapsed s = Some (collapsed s) \<longrightarrow>
      collapsed (on_anim_finished s) = collapsed s \<and>
      \<not> anim_inflight (on_anim_finished s) \<and>
      anim_target_collapsed (on_anim_finished s) = None"
    using finished_fields [of s] by (cases "collapsed s") auto
  from a b c show ?thesis
    by (simp only: anim_frames_collapsed anim_frames_target anim_frames_inflight simp_thms)
qed

theorem mode_committed_at_start_witness:
  "\<not> collapsed example_overlay \<and>
   (\<exists>s'. collapse_to_edge_animated example_screen example_font (0, 0) example_overlay = Inr s' \<and>
         anim_inflight s' \<and> anim_target_collapsed s' = Some True \<and> collapsed s' \<and>
         collapsed (on_anim_finished s') \<and>
         \<not> anim_inflight (on_anim_finished s') \<and>
         anim_inflight (expand_animated example_screen (on_anim_finished s')) \<and>
         anim_target_collapsed (expand_animated example_screen (on_anim_finished s')) = Some False \<and>
         \<not> collapsed (expand_animated example_screen (on_anim_finished s')))"
proof -
  have n: "\<not> collapsed example_overlay"
    by (simp add: example_overlay_def overlay_init_def)
  from n mode_committed_at_start [of example_overlay example_screen example_font "(0, 0)" "[]"]
  obtain s1 where s1: "collapse_to_edge_animated example_screen example_font (0, 0) example_overlay = Inr s1"
    "anim_inflight s1" "anim_target_collapsed s1 = Some True" "collapsed s1"
    by blast
  from s1 mode_committed_at_start [of s1 example_screen example_font "(0, 0)" "[]"]
  have f: "collapsed (on_anim_finished s1)" "\<not> anim_inflight (on_anim_finished s1)"
    by simp_all
  from f mode_committed_at_start [of "on_anim_finished s1" example_screen example_font "(0, 0)" "[]"]
  have e: "anim_inflight (expand_animated example_screen (on_anim_finished s1))"
    "anim_target_collapsed (expand_animated example_screen (on_anim_finished s1)) = Some False"
    "\<not> collapsed (expand_animated example_screen (on_anim_finished s1))"
    by simp_all
  from n s1 f e show ?thesis by blast
qed

text \<open>
  Claim C4. When the animation group finishes, \<open>_on_anim_finished\<close> sets the mode to the
  target and the window opacity to the constant of that mode, and clears the in-flight
  flag and the target. So after an animation to the collapsed mode has been started from
  an expanded state and has run through any frames, the mode is collapsed and the
  opacity is \<open>COLLAPSED_OPACITY\<close>, whatever the last frame wrote; and likewise for an
  animation to the expanded mode with \<open>EXPANDED_OPACITY\<close>.
\<close>

theorem anim_finished_pins_mode_and_opacity:
  "(anim_target_collapsed s = Some True \<longrightarrow>
      collapsed (on_anim_finished s) \<and>
      window_opacity (on_anim_finished s) = COLLAPSED_OPACITY) \<and>
   (anim_target_collapsed s = Some False \<longrightarrow>
      \<not> collapsed (on_anim_finished s) \<and>
      window_opacity (on_anim_finished s) = EXPANDED_OPACITY) \<and>
   (\<not> collapsed s \<longrightarrow>
      (\<exists>s1. collapse_to_edge_animated scr fm d s = Inr s1 \<and>
            collapsed (on_anim_finished (anim_frames fs s1)) \<and>
            window_opacity (on_anim_finished (anim_frames fs s1)) = COLLAPSED_OPACITY \<and>
            \<not> anim_inflight (on_anim_finished (anim_frames fs s1)) \<and>
            anim_target_collapsed (on_anim_finished (anim_frames fs s1)) = None)) \<and>
   (collapsed s \<longrightarrow>
      \<not> collapsed (on_anim_finished (anim_frames fs (expand_animated scr s))) \<and>
      window_opacity (on_anim_finished (anim_frames fs (expand_animated scr s)))
        = EXPANDED_OPACITY \<and>
      \<not> anim_inflight (on_anim_finished (anim_frames fs (expand_animated scr s))) \<and>
      anim_target_collapsed (on_anim_finished (anim_frames fs (expand_animated scr s))) = None)"
proof -
  have c: "\<not> collapsed s \<longrightarrow>
      (\<exists>s1. collapse_to_edge_animated scr fm d s = Inr s1 \<and>
            collapsed (on_anim_finished (anim_frames fs s1)) \<and>
            window_opacity (on_anim_finished (anim_frames fs s1)) = COLLAPSED_OPACITY \<and>
            \<not> anim_inflight (on_anim_finished (anim_frames fs s1)) \<and>
            anim_target_collapsed (on_anim_finished (anim_frames fs s1)) = None)"
  proof
    assume "\<not> collapsed s"
    then obtain s1 where s1: "collapse_to_edge_animated scr fm d s = Inr s1"
      "anim_target_collapsed s1 = Some True"
      using collapse_fields [of s scr fm d] by blast
    then have "anim_target_collapsed (anim_frames fs s1) = Some True"
      by (simp add: anim_frames_target)
    with finished_fields [of "anim_frames fs s1"] s1(1)
    show "\<exists>s1. collapse_to_edge_animated scr fm d s = Inr s1 \<and>
            collapsed (on_anim_finished (anim_frames fs s1)) \<and>
            window_opacity (on_anim_finished (anim_frames fs s1)) = COLLAPSED_OPACITY \<and>
            \<not> anim_inflight (on_anim_finished (anim_frames fs s1)) \<and>
            anim_target_collapsed (on_anim_finished (anim_frames fs s1)) = None"
      by blast
  qed
  have e: "collapsed s \<longrightarrow>
      \<not> collapsed (on_anim_finished (anim_frames fs (expand_animated scr s))) \<and>
      window_opacity (on_anim_finished (anim_frames fs (expand_animated scr s)))
        = EXPANDED_OPACITY \<and>
      \<not> anim_inflight (on_anim_finished (anim_frames fs (expand_animated scr s))) \<and>
      anim_target_collapsed (on_anim_finished (anim_frames fs (expand_animated scr s))) = None"
  proof
    assume "collapsed s"
    then have "anim_target_collapsed (expand_animated scr s) = Some False"
      using expand_fields [of s scr] by blast
    then have "anim_target_collapsed (anim_frames fs (expand_animated scr s)) = Some False"
      by (simp add: anim_frames_target)
    with finished_fields [of "anim_frames fs (expand_animated scr s)"]
    show "\<not> collapsed (on_anim_finished (anim_frames fs (expand_animated scr s))) \<and>
      window_opacity (on_anim_finished (anim_frames fs (expand_animated scr s)))
        = EXPANDED_OPACITY \<and>
      \<not> anim_inflight (on_anim_finished (anim_frames fs (expand_animated scr s))) \<and>
      anim_target_collapsed (on_anim_finished (anim_frames fs (expand_animated scr s))) = None"
      by blast
  qed
  from finished_fields [of s] c e show ?thesis by blast
qed

theorem anim_finished_pins_mode_and_opacity_witness:
  "\<not> collapsed example_overlay \<and>
   (\<exists>s1. collapse_to_edge_animated example_screen example_font (0, 0) example_overlay = Inr s1 \<and>
      collapsed (on_anim_finished
        (anim_frames
           [(\<lparr>rect_x = 1754, rect_y = 15, rect_width = 151, rect_height = 151\<rparr>, 93 / 100),
            (\<lparr>rect_x = 1868, rect_y = 20, rect_width = 32, rect_height = 124\<rparr>, 8600001 / 10000000)]
           s1)) \<and>
      window_opacity (on_anim_finished
        (anim_frames
           [(\<lparr>rect_x = 1754, rect_y = 15, rect_width = 151, rect_height = 151\<rparr>, 93 / 100),
            (\<lparr>rect_x = 1868, rect_y = 20, rect_width = 32, rect_height = 124\<rparr>, 8600001 / 10000000)]
           s1)) = 86 / 100 \<and>
      \<not> collapsed (on_anim_finished (anim_frames []
        (expand_animated example_screen (on_anim_finished
          (anim_frames
           [(\<lparr>rect_x = 1754, rect_y = 15, rect_width = 151, rect_height = 151\<rparr>, 93 / 100),
            (\<lparr>rect_x = 1868, rect_y = 20, rect_width = 32, rect_height = 124\<rparr>, 8600001 / 10000000)]
           s1))))) \<and>
      window_opacity (on_anim_finished (anim_frames []
        (expand_animated example_screen (on_anim_finished
          (anim_frames
           [(\<lparr>rect_x = 1754, rect_y = 15, rect_width = 151, rect_height = 151\<rparr>, 93 / 100),
            (\<lparr>rect_x = 1868, rect_y = 20, rect_width = 32, rect_height = 124\<rparr>, 8600001 / 10000000)]
           s1))))) = 1)"
proof -
  let ?F = "[(\<lparr>rect_x = 1754, rect_y = 15, rect_width = 151, rect_height = 151\<rparr>, 93 / 100),
             (\<lparr>rect_x = 1868, rect_y = 20, rect_width = 32, rect_height = 124\<rparr>,
              8600001 / 10000000)] :: (QRect \<times> real) list"
  have n: "\<not> collapsed example_overlay"
    by (simp add: example_overlay_def overlay_init_def)
  from n anim_finished_pins_mode_and_opacity
           [of example_overlay example_screen example_font "(0, 0)" ?F]
  obtain s1 where s1:
    "collapse_to_edge_animated example_screen example_font (0, 0) example_overlay = Inr s1"
    "collapsed (on_anim_finished (anim_frames ?F s1))"
    "window_opacity (on_anim_finished (anim_frames ?F s1)) = COLLAPSED_OPACITY"
    by blast
  from s1(2) anim_finished_pins_mode_and_opacity
           [of "on_anim_finished (anim_frames ?F s1)" example_screen example_font "(0, 0)" "[]"]
  have e:
    "\<not> collapsed (on_anim_finished (anim_frames []
        (expand_animated example_screen (on_anim_finished (anim_frames ?F s1)))))"
    "window_opacity (on_anim_finished (anim_frames []
        (expand_animated example_screen (on_anim_finished (anim_frames ?F s1))))) = EXPANDED_OPACITY"
    by blast+
  from n s1 e show ?thesis
    unfolding COLLAPSED_OPACITY_def EXPANDED_OPACITY_def by blast
qed

lemma start_anim_fields:
  "anim_inflight (start_anim sg eg so eo tc s) \<and>
   anim_target_collapsed (start_anim sg eg so eo tc s) = Some tc \<and>
   geo_anim_start (start_anim sg eg so eo tc s) = Some sg \<and>
   geo_anim_end (start_anim sg eg so eo tc s) = Some eg \<and>
   opa_anim_start (start_anim sg eg so eo tc s) = Some so \<and>
   opa_anim_end (start_anim sg eg so eo tc s) = Some eo \<and>
   anim_group_calls (start_anim sg eg so eo tc s) =
     anim_group_calls s @ (if anim_inflight s then [Stop, Start] else [Start])"
  by (simp add: start_anim_def Let_def)

text \<open>
  The opacity an animation of the program interpolates is positive: both transitions
  start it from a positive opacity towards a positive constant, and a value between the
  two is positive.
\<close>

lemma anim_opacity_ends_positive:
  "(\<not> collapsed s \<longrightarrow>
      (\<exists>s' a b. collapse_to_edge_animated scr fm d s = Inr s' \<and>
          opa_anim_start s' = Some a \<and> opa_anim_end s' = Some b \<and> 0 < a \<and> 0 < b)) \<and>
   (collapsed s \<longrightarrow>
      (\<exists>a b. opa_anim_start (expand_animated scr s) = Some a \<and>
          opa_anim_end (expand_animated scr s) = Some b \<and> 0 < a \<and> 0 < b))"
proof -
  have p: "0 < (if 0 < window_opacity s then window_opacity s else EXPANDED_OPACITY)"
    "0 < (if 0 < window_opacity s then window_opacity s else COLLAPSED_OPACITY)"
    "0 < COLLAPSED_OPACITY" "0 < EXPANDED_OPACITY"
    by (simp_all add: EXPANDED_OPACITY_def COLLAPSED_OPACITY_def)
  have a: "\<not> collapsed s \<longrightarrow>
      (\<exists>s' a b. collapse_to_edge_animated scr fm d s = Inr s' \<and>
          opa_anim_start s' = Some a \<and> opa_anim_end s' = Some b \<and> 0 < a \<and> 0 < b)"
    using collapse_fields [of s scr fm d] p by blast
  have b: "collapsed s \<longrightarrow>
      (\<exists>a b. opa_anim_start (expand_animated scr s) = Some a \<and>
          opa_anim_end (expand_animated scr s) = Some b \<and> 0 < a \<and> 0 < b)"
    using expand_fields [of s scr] p by blast
  from a b show ?thesis by blast
qed

lemma interpolated_opacity_positive:
  fixes a b p :: real
  assumes "0 < a" and "0 < b" and "0 \<le> p" and "p \<le> 1"
  shows "0 < a + (b - a) * p"
proof -
  have "a + (b - a) * p = (1 - p) * a + p * b" by (simp add: algebra_simps)
  moreover have "0 < (1 - p) * a + p * b"
  proof (cases "p = 0")
    case True
    with assms show ?thesis by simp
  next
    case False
    with assms have "0 < p * b" "0 \<le> (1 - p) * a" by simp_all
    then show ?thesis by linarith
  qed
  ultimately show ?thesis by simp
qed

text \<open>
  Claim C9. A transition called while an animation is in flight (the window showing an
  interpolated, positive opacity) stops the running group before it starts it again, and
  the start values it gives the new animation are the geometry and the opacity of the
  window at that moment; the target mode is overwritten. This holds for
  \<open>expand_animated\<close> (called on a state whose mode is collapsed) and for
  \<open>collapse_to_edge_animated\<close> (called on a state whose mode is expanded), and
  \<open>_start_anim\<close> itself stops the group exactly when one is in flight.
\<close>

theorem interrupting_anim_starts_from_current:
  assumes "anim_inflight s" and "0 < window_opacity s"
  shows
  "(collapsed s \<longrightarrow>
      geo_anim_start (expand_animated scr s) = Some (geometry s) \<and>
      opa_anim_start (expand_animated scr s) = Some (window_opacity s) \<and>
      anim_group_calls (expand_animated scr s) = anim_group_calls s @ [Stop, Start] \<and>
      anim_inflight (expand_animated scr s) \<and>
      anim_target_collapsed (expand_animated scr s) = Some False) \<and>
   (\<not> collapsed s \<longrightarrow>
      (\<exists>s'. collapse_to_edge_animated scr fm d s = Inr s' \<and>
            geo_anim_start s' = Some (geometry s) \<and>
            opa_anim_start s' = Some (window_opacity s) \<and>
            anim_group_calls s' = anim_group_calls s @ [Stop, Start] \<and>
            anim_inflight s' \<and>
            anim_target_collapsed s' = Some True)) \<and>
   anim_group_calls (start_anim sg eg so eo tc s) = anim_group_calls s @ [Stop, Start] \<and>
   geo_anim_start (start_anim sg eg so eo tc s) = Some sg \<and>
   opa_anim_start (start_anim sg eg so eo tc s) = Some so"
proof -
  have e: "collapsed s \<longrightarrow>
      geo_anim_start (expand_animated scr s) = Some (geometry s) \<and>
      opa_anim_start (expand_animated scr s) = Some (window_opacity s) \<and>
      anim_group_calls (expand_animated scr s) = anim_group_calls s @ [Stop, Start] \<and>
      anim_inflight (expand_animated scr s) \<and>
      anim_target_collapsed (expand_animated scr s) = Some False"
    using expand_fields [of s scr] assms by simp
  have c: "\<not> collapsed s \<longrightarrow>
      (\<exists>s'. collapse_to_edge_animated scr fm d s = Inr s' \<and>
            geo_anim_start s' = Some (geometry s) \<and>
            opa_anim_start s' = Some (window_opacity s) \<and>
            anim_group_calls s' = anim_group_calls s @ [Stop, Start] \<and>
            anim_inflight s' \<and>
            anim_target_collapsed s' = Some True)"
  proof
    assume "\<not> collapsed s"
    from collapse_fields [OF this, of scr fm d] obtain s' where
      "collapse_to_edge_animated scr fm d s = Inr s'" "anim_inflight s'"
      "anim_target_collapsed s' = Some True" "geo_anim_start s' = Some (geometry s)"
      "opa_anim_start s' =
         Some (if 0 < window_opacity s then window_opacity s else EXPANDED_OPACITY)"
      "anim_group_calls s' =
         anim_group_calls s @ (if anim_inflight s then [Stop, Start] else [Start])"
      by blast
    with assms show "\<exists>s'. collapse_to_edge_animated scr fm d s = Inr s' \<and>
            geo_anim_start s' = Some (geometry s) \<and>
            opa_anim_start s' = Some (window_opacity s) \<and>
            anim_group_calls s' = anim_group_calls s @ [Stop, Start] \<and>
            anim_inflight s' \<and>
            anim_target_collapsed s' = Some True"
      by simp
  qed
  from e c start_anim_fields [of sg eg so eo tc s] assms(1) show ?thesis by simp
qed

theorem interrupting_anim_starts_from_current_witness:
  "\<exists>s1. collapse_to_edge_animated example_screen example_font (0, 0) example_overlay = Inr s1 \<and>
     anim_inflight
       (anim_frame \<lparr>rect_x = 1754, rect_y = 15, rect_width = 151, rect_height = 151\<rparr> (93 / 100) s1) \<and>
     collapsed
       (anim_frame \<lparr>rect_x = 1754, rect_y = 15, rect_width = 151, rect_height = 151\<rparr> (93 / 100) s1) \<and>
     geo_anim_start s1 =
       Some \<lparr>rect_x = 1640, rect_y = 10, rect_width = 270, rect_height = 178\<rparr> \<and>
     opa_anim_start s1 = Some 1 \<and>
     opa_anim_end s1 = Some (86 / 100) \<and>
     geo_anim_start (expand_animated example_screen
       (anim_frame \<lparr>rect_x = 1754, rect_y = 15, rect_width = 151, rect_height = 151\<rparr> (93 / 100) s1))
       = Some \<lparr>rect_x = 1754, rect_y = 15, rect_width = 151, rect_height = 151\<rparr> \<and>
     opa_anim_start (expand_animated example_screen
       (anim_frame \<lparr>rect_x = 1754, rect_y = 15, rect_width = 151, rect_height = 151\<rparr> (93 / 100) s1))
       = Some (93 / 100) \<and>
     anim_group_calls (expand_animated example_screen
       (anim_frame \<lparr>rect_x = 1754, rect_y = 15, rect_width = 151, rect_height = 151\<rparr> (93 / 100) s1))
       = [Start, Stop, Start]"
proof -
  let ?g = "\<lparr>rect_x = 1754, rect_y = 15, rect_width = 151, rect_height = 151\<rparr>"
  have n: "\<not> collapsed example_overlay"
    by (simp add: example_overlay_def overlay_init_def)
  from collapse_fields [OF n, of example_screen example_font "(0, 0)"]
  obtain s1 where s1:
    "collapse_to_edge_animated example_screen example_font (0, 0) example_overlay = Inr s1"
    "anim_inflight s1" "collapsed s1"
    "geo_anim_start s1 = Some (geometry example_overlay)"
    "opa_anim_start s1 = Some (if 0 < window_opacity example_overlay
        then window_opacity example_overlay else EXPANDED_OPACITY)"
    "opa_anim_end s1 = Some COLLAPSED_OPACITY"
    "anim_group_calls s1 = anim_group_calls example_overlay @
        (if anim_inflight example_overlay then [Stop, Start] else [Start])"
    by blast
  have f: "anim_inflight (anim_frame ?g (93 / 100) s1)"
    "0 < window_opacity (anim_frame ?g (93 / 100) s1)"
    "collapsed (anim_frame ?g (93 / 100) s1)"
    "geometry (anim_frame ?g (93 / 100) s1) = ?g"
    "window_opacity (anim_frame ?g (93 / 100) s1) = 93 / 100"
    "anim_group_calls (anim_frame ?g (93 / 100) s1) = anim_group_calls s1"
    using s1 by (simp_all add: anim_frame_def)
  from interrupting_anim_starts_from_current [OF f(1) f(2), of example_screen] f(3)
  have r: "geo_anim_start (expand_animated example_screen (anim_frame ?g (93 / 100) s1))
             = Some (geometry (anim_frame ?g (93 / 100) s1))"
    "opa_anim_start (expand_animated example_screen (anim_frame ?g (93 / 100) s1))
             = Some (window_opacity (anim_frame ?g (93 / 100) s1))"
    "anim_group_calls (expand_animated example_screen (anim_frame ?g (93 / 100) s1))
             = anim_group_calls (anim_frame ?g (93 / 100) s1) @ [Stop, Start]"
    by simp_all
  have i: "geometry example_overlay
            = \<lparr>rect_x = 1640, rect_y = 10, rect_width = 270, rect_height = 178\<rparr>"
    "window_opacity example_overlay = 1" "anim_group_calls example_overlay = []"
    "\<not> anim_inflight example_overlay"
    by (simp_all add: example_overlay_def overlay_init_def EXPANDED_OPACITY_def)
  from s1 f r i show ?thesis
    by (simp add: COLLAPSED_OPACITY_def)
qed

section \<open>Properties of the mood score\<close>

text \<open>
  Claim C6. The score is the weighted sum of the seven readings with the weights 0.28,
  0.28, 0.22, 0.10 and 0.12, a missing reading counting as 0, the disk sum normalised
  against 200 MB/s and the network sum against 50 MB/s, each capped at 100; the sum is
  then clamped, so that the score lies between 0 and 100 for every input. When the three
  percentages lie between 0 and 100 and no rate is negative, the clamp changes nothing.
\<close>

theorem mood_score_formula_and_range:
  "mood_score s =
     max 0 (min 100
       (28 / 100 * (case last_cpu s of Some v \<Rightarrow> v | None \<Rightarrow> 0)
        + 28 / 100 * (case last_gpu s of Some v \<Rightarrow> v | None \<Rightarrow> 0)
        + 22 / 100 * (case last_ram s of Some v \<Rightarrow> v | None \<Rightarrow> 0)
        + 10 / 100 * min 100
            (((case last_disk_r s of Some v \<Rightarrow> v | None \<Rightarrow> 0)
              + (case last_disk_w s of Some v \<Rightarrow> v | None \<Rightarrow> 0)) / 200 * 100)
        + 12 / 100 * min 100
            (((case last_up s of Some v \<Rightarrow> v | None \<Rightarrow> 0)
              + (case last_down s of Some v \<Rightarrow> v | None \<Rightarrow> 0)) / 50 * 100))) \<and>
   0 \<le> mood_score s \<and> mood_score s \<le> 100 \<and>
   (28 / 100 + 28 / 100 + 22 / 100 + 10 / 100 + 12 / 100 = (1 :: real)) \<and>
   (last_cpu s = Some cpu \<and> 0 \<le> cpu \<and> cpu \<le> 100 \<and>
    last_gpu s = Some gpu \<and> 0 \<le> gpu \<and> gpu \<le> 100 \<and>
    last_ram s = Some ram \<and> 0 \<le> ram \<and> ram \<le> 100 \<and>
    last_disk_r s = Some dr \<and> 0 \<le> dr \<and> last_disk_w s = Some dw \<and> 0 \<le> dw \<and>
    last_up s = Some up \<and> 0 \<le> up \<and> last_down s = Some down \<and> 0 \<le> down
    \<longrightarrow>
    mood_score s =
      28 / 100 * cpu + 28 / 100 * gpu + 22 / 100 * ram
      + 10 / 100 * min 100 ((dr + dw) / 200 * 100)
      + 12 / 100 * min 100 ((up + down) / 50 * 100))"
proof -
  have f: "mood_score s =
     max 0 (min 100
       (28 / 100 * (case last_cpu s of Some v \<Rightarrow> v | None \<Rightarrow> 0)
        + 28 / 100 * (case last_gpu s of Some v \<Rightarrow> v | None \<Rightarrow> 0)
        + 22 / 100 * (case last_ram s of Some v \<Rightarrow> v | None \<Rightarrow> 0)
        + 10 / 100 * min 100
            (((case last_disk_r s of Some v \<Rightarrow> v | None \<Rightarrow> 0)
              + (case last_disk_w s of Some v \<Rightarrow> v | None \<Rightarrow> 0)) / 200 * 100)
        + 12 / 100 * min 100
            (((case last_up s of Some v \<Rightarrow> v | None \<Rightarrow> 0)
              + (case last_down s of Some v \<Rightarrow> v | None \<Rightarrow> 0)) / 50 * 100)))"
  proof -
    have m: "max (1 / 1000000) NET_SAT_MB_S = 50"
      by (simp add: NET_SAT_MB_S_def)
    show ?thesis by (simp only: mood_score_def Let_def m)
  qed
  have r: "0 \<le> mood_score s \<and> mood_score s \<le> 100"
    unfolding f by simp
  have e: "last_cpu s = Some cpu \<and> 0 \<le> cpu \<and> cpu \<le> 100 \<and>
    last_gpu s = Some gpu \<and> 0 \<le> gpu \<and> gpu \<le> 100 \<and>
    last_ram s = Some ram \<and> 0 \<le> ram \<and> ram \<le> 100 \<and>
    last_disk_r s = Some dr \<and> 0 \<le> dr \<and> last_disk_w s = Some dw \<and> 0 \<le> dw \<and>
    last_up s = Some up \<and> 0 \<le> up \<and> last_down s = Some down \<and> 0 \<le> down
    \<longrightarrow>
    mood_score s =
      28 / 100 * cpu + 28 / 100 * gpu + 22 / 100 * ram
      + 10 / 100 * min 100 ((dr + dw) / 200 * 100)
      + 12 / 100 * min 100 ((up + down) / 50 * 100)"
  proof
    assume a: "last_cpu s = Some cpu \<and> 0 \<le> cpu \<and> cpu \<le> 100 \<and>
      last_gpu s = Some gpu \<and> 0 \<le> gpu \<and> gpu \<le> 100 \<and>
      last_ram s = Some ram \<and> 0 \<le> ram \<and> ram \<le> 100 \<and>
      last_disk_r s = Some dr \<and> 0 \<le> dr \<and> last_disk_w s = Some dw \<and> 0 \<le> dw \<and>
      last_up s = Some up \<and> 0 \<le> up \<and> last_down s = Some down \<and> 0 \<le> down"
    define dn where "dn = min 100 ((dr + dw) / 200 * 100)"
    define nn where "nn = min 100 ((up + down) / 50 * 100)"
    have d: "0 \<le> dn" "dn \<le> 100" using a by (simp_all add: dn_def)
    have n: "0 \<le> nn" "nn \<le> 100" using a by (simp_all add: nn_def)
    let ?c = "28 / 100 * cpu + 28 / 100 * gpu + 22 / 100 * ram + 10 / 100 * dn + 12 / 100 * nn"
    have "0 \<le> ?c" "?c \<le> 100" using a d n by simp_all
    then have "max 0 (min 100 ?c) = ?c" by simp
    with a show "mood_score s =
      28 / 100 * cpu + 28 / 100 * gpu + 22 / 100 * ram
      + 10 / 100 * min 100 ((dr + dw) / 200 * 100)
      + 12 / 100 * min 100 ((up + down) / 50 * 100)"
      unfolding f dn_def nn_def by simp
  qed
  from f r e show ?thesis by simp
qed

theorem mood_score_formula_and_range_witness:
  "mood_score (example_overlay\<lparr>last_cpu := Some 50, last_gpu := Some 40, last_ram := Some 60,
      last_disk_r := Some 30, last_disk_w := Some 20, last_up := Some 1, last_down := Some 4\<rparr>)
     = 421 / 10 \<and>
   mood_score (example_overlay\<lparr>last_cpu := Some 100, last_gpu := Some 100, last_ram := Some 100,
      last_disk_r := Some 900, last_disk_w := Some 900, last_up := Some 700, last_down := Some 700\<rparr>)
     = 100"
proof -
  let ?s = "example_overlay\<lparr>last_cpu := Some 50, last_gpu := Some 40, last_ram := Some 60,
      last_disk_r := Some 30, last_disk_w := Some 20, last_up := Some 1, last_down := Some 4\<rparr>"
  let ?t = "example_overlay\<lparr>last_cpu := Some 100, last_gpu := Some 100, last_ram := Some 100,
      last_disk_r := Some 900, last_disk_w := Some 900, last_up := Some 700, last_down := Some 700\<rparr>"
  have a: "mood_score ?s = 421 / 10"
    using mood_score_formula_and_range [of ?s 50 40 60 30 20 1 4] by simp
  have b: "mood_score ?t = 100"
    using mood_score_formula_and_range [of ?t 100 100 100 900 900 700 700] by simp
  from a b show ?thesis by simp
qed

section \<open>Properties of the dock planner\<close>

lemma collapsed_rect_for_within:
  assumes "w \<le> rect_width scr - 2 * EDGE_SAFE_PX"
    and "h \<le> rect_height scr - 2 * EDGE_SAFE_PX"
  shows "rect_left scr + EDGE_SAFE_PX \<le> rect_left (collapsed_rect_for scr expanded side w h) \<and>
         rect_right (collapsed_rect_for scr expanded side w h) \<le> rect_right scr - EDGE_SAFE_PX \<and>
         rect_top scr + EDGE_SAFE_PX \<le> rect_top (collapsed_rect_for scr expanded side w h) \<and>
         rect_bottom (collapsed_rect_for scr expanded side w h) \<le> rect_bottom scr - EDGE_SAFE_PX \<and>
         rect_width (collapsed_rect_for scr expanded side w h) = w \<and>
         rect_height (collapsed_rect_for scr expanded side w h) = h"
  using assms
  by (auto simp: collapsed_rect_for_def clamp_def rect_left_def rect_right_def rect_top_def
        rect_bottom_def EDGE_SAFE_PX_def Let_def)

lemma calc_collapsed_width_fits:
  assumes "92 \<le> rect_width scr"
  shows "calc_collapsed_width_for_text fm mood \<le> rect_width scr - 2 * EDGE_SAFE_PX"
  using assms
  by (simp add: calc_collapsed_width_for_text_def clamp_def COLLAPSED_MIN_W_def
        COLLAPSED_MAX_W_def EDGE_SAFE_PX_def Let_def)

lemma calc_collapsed_height_fits:
  assumes "104 \<le> rect_height scr"
  shows "calc_collapsed_height_for_text scr fm mood \<le> rect_height scr - 2 * EDGE_SAFE_PX"
proof -
  let ?H = "rect_height scr"
  have "real_of_int ?H * (55 / 100) < real_of_int (?H - 40) + 1"
    using assms by simp
  then have "\<lfloor>real_of_int ?H * (55 / 100)\<rfloor> \<le> ?H - 40"
    by (simp add: floor_le_iff)
  moreover have "0 \<le> real_of_int ?H * (55 / 100)" using assms by simp
  ultimately have m: "py_int (real_of_int ?H * COLLAPSED_MAX_H_RATIO) \<le> ?H - 40"
    by (simp add: py_int_def COLLAPSED_MAX_H_RATIO_def)
  have "calc_collapsed_height_for_text scr fm mood
          \<le> max COLLAPSED_MIN_H (py_int (real_of_int ?H * COLLAPSED_MAX_H_RATIO))"
    by (simp add: calc_collapsed_height_for_text_def clamp_def Let_def)
  also have "\<dots> \<le> ?H - 40" using m assms by (simp add: COLLAPSED_MIN_H_def)
  finally show ?thesis by (simp add: EDGE_SAFE_PX_def)
qed

text \<open>
  The side decision and the docked rectangle written in the fields of the rectangles:
  the centre column is the sum of the two edge columns halved towards zero, the
  midpoint of the screen the sum of its edge columns halved downwards.
\<close>

lemma rect_center_x_fields:
  "rect_center_x r =
     (if 0 \<le> 2 * rect_x r + rect_width r - 1
      then (2 * rect_x r + rect_width r - 1) div 2
      else - ((- (2 * rect_x r + rect_width r - 1)) div 2))"
proof -
  have e: "rect_left r + rect_right r = 2 * rect_x r + rect_width r - 1"
    by (simp add: rect_left_def rect_right_def)
  show ?thesis
    unfolding rect_center_x_def e cpp_div_def
    by (cases "2 * rect_x r + rect_width r - 1" "0 :: int" rule: linorder_cases) simp_all
qed

lemma decide_left_fields:
  "decide_nearest_side scr rect = ''left'' \<longleftrightarrow>
     (if 0 \<le> 2 * rect_x rect + rect_width rect - 1
      then (2 * rect_x rect + rect_width rect - 1) div 2
      else - ((- (2 * rect_x rect + rect_width rect - 1)) div 2))
       < (2 * rect_x scr + rect_width scr - 1) div 2"
proof -
  have e: "rect_left scr + rect_right scr = 2 * rect_x scr + rect_width scr - 1"
    by (simp add: rect_left_def rect_right_def)
  show ?thesis
    unfolding decide_nearest_side_def e rect_center_x_fields by simp
qed

lemma decide_right_iff: "decide_nearest_side scr rect = ''right'' \<longleftrightarrow> decide_nearest_side scr rect \<noteq> ''left''"
  by (simp add: decide_nearest_side_def)

lemma decide_left_exact:
  assumes "decide_nearest_side scr rect = ''left''"
  shows "2 * rect_x rect + rect_width rect < 2 * rect_x scr + rect_width scr"
  using assms unfolding decide_left_fields by (auto split: if_splits)

lemma decide_left_sufficient:
  assumes "2 * rect_x rect + rect_width rect + 3 \<le> 2 * rect_x scr + rect_width scr"
  shows "decide_nearest_side scr rect = ''left''"
  using assms unfolding decide_left_fields by (auto split: if_splits)

lemma collapsed_rect_for_fields:
  "rect_x (collapsed_rect_for scr expanded side w h) =
     (if side = ''left'' then rect_x scr + 20 else rect_x scr + rect_width scr - w - 20)"
  "rect_y (collapsed_rect_for scr expanded side w h) =
     max (rect_y scr + 20) (min (rect_y scr + rect_height scr - h - 21) (rect_y expanded))"
  "rect_width (collapsed_rect_for scr expanded side w h) = w"
  "rect_height (collapsed_rect_for scr expanded side w h) = h"
  by (simp_all add: collapsed_rect_for_def clamp_def rect_left_def rect_right_def rect_top_def
        rect_bottom_def EDGE_SAFE_PX_def Let_def)

lemma collapsed_rect_for_within_iff:
  "(rect_x scr + 20 \<le> rect_x (collapsed_rect_for scr expanded side w h) \<and>
    rect_x (collapsed_rect_for scr expanded side w h) + w - 1 \<le> rect_x scr + rect_width scr - 1 - 20 \<and>
    rect_y scr + 20 \<le> rect_y (collapsed_rect_for scr expanded side w h) \<and>
    rect_y (collapsed_rect_for scr expanded side w h) + h - 1 \<le> rect_y scr + rect_height scr - 1 - 20)
   \<longleftrightarrow> (w \<le> rect_width scr - 40 \<and> h \<le> rect_height scr - 40)"
  unfolding collapsed_rect_for_fields by auto

text \<open>
  Claim C7, as stated, fails in its second half: the docked rectangle cannot lie within
  the inset screen when the collapsed size does not fit between the margins, and the
  height the program computes is never less than \<open>COLLAPSED_MIN_H\<close>. On a work area of
  1920 by 100 pixels the mood text of the initial state gets the size 32 by 64; the
  docked rectangle then starts at row 20 and ends at row 83, below the last row, 79,
  that the margin allows. \<open>collapse_to_edge_animated\<close> gives this rectangle to the
  animation as its end.
\<close>

theorem docked_rect_counterexample:
  "calc_collapsed_width_for_text example_font [25720, 40060, 20013, 32, 128564] = 32 \<and>
   calc_collapsed_height_for_text
     \<lparr>rect_x = 0, rect_y = 0, rect_width = 1920, rect_height = 100\<rparr>
     example_font [25720, 40060, 20013, 32, 128564] = 64 \<and>
   collapsed_rect_for \<lparr>rect_x = 0, rect_y = 0, rect_width = 1920, rect_height = 100\<rparr>
     \<lparr>rect_x = 1640, rect_y = 10, rect_width = 270, rect_height = 178\<rparr> ''right'' 32 64
     = \<lparr>rect_x = 1868, rect_y = 20, rect_width = 32, rect_height = 64\<rparr> \<and>
   rect_bottom \<lparr>rect_x = 1868, rect_y = 20, rect_width = 32, rect_height = 64\<rparr> = 83 \<and>
   rect_bottom \<lparr>rect_x = 0, rect_y = 0, rect_width = 1920, rect_height = 100\<rparr> - EDGE_SAFE_PX = 79 \<and>
   geo_anim_end (projr (collapse_to_edge_animated
       \<lparr>rect_x = 0, rect_y = 0, rect_width = 1920, rect_height = 100\<rparr>
       example_font (0, 0) example_overlay))
     = Some \<lparr>rect_x = 1868, rect_y = 20, rect_width = 32, rect_height = 64\<rparr>"
  by (simp add: collapse_to_edge_animated_def example_overlay_def example_font_def
        overlay_init_def compute_mood_phrase_def
        mood_score_def get_def pick_bucket_def random_choice_def MOOD_BUCKETS_def
        start_anim_def decide_nearest_side_def collapsed_rect_for_def
        calc_collapsed_height_for_text_def calc_collapsed_width_for_text_def
        clamp_def py_int_def rect_left_def rect_right_def rect_top_def rect_bottom_def
        rect_center_x_def cpp_div_def EDGE_SAFE_PX_def NET_SAT_MB_S_def
        EXPANDED_OPACITY_def COLLAPSED_OPACITY_def COLLAPSED_MIN_H_def
        COLLAPSED_MAX_H_RATIO_def COLLAPSED_MIN_W_def COLLAPSED_MAX_W_def Let_def)

text \<open>
  Claim C7, amended. Write \<open>x\<close>, \<open>w\<close> for the left edge and width of the rectangle and
  \<open>X\<close>, \<open>W\<close> for those of the screen. The side is \<open>left\<close> exactly when the centre
  column of the rectangle, the sum \<open>2x + w - 1\<close> of its two edge columns halved towards
  zero, is strictly less than the midpoint of the screen, the sum \<open>2X + W - 1\<close> halved
  downwards; otherwise it is \<open>right\<close>. So \<open>left\<close> implies that the centre lies strictly
  left of the middle of the screen, and it is chosen whenever the centre is at least
  one and a half pixels left of it. The docked rectangle has the collapsed size, is
  flush with the chosen edge less the margin of 20 pixels, and its top is the expanded
  top clamped; it lies within the screen inset by the margin on all four edges exactly
  when the collapsed size fits between the margins (width at most \<open>W - 40\<close>, height at
  most \<open>H - 40\<close>). On a screen of at least 92 by 104 pixels the sizes the program computes
  for any text and font fit, so there the rectangle \<open>collapse_to_edge_animated\<close> gives
  the animation as its end lies within the inset screen, on the side decided.
\<close>

theorem dock_side_and_docked_rect:
  "(decide_nearest_side scr rect = ''left'' \<longleftrightarrow>
      (if 0 \<le> 2 * rect_x rect + rect_width rect - 1
       then (2 * rect_x rect + rect_width rect - 1) div 2
       else - ((- (2 * rect_x rect + rect_width rect - 1)) div 2))
        < (2 * rect_x scr + rect_width scr - 1) div 2) \<and>
   (decide_nearest_side scr rect = ''right'' \<longleftrightarrow> decide_nearest_side scr rect \<noteq> ''left'') \<and>
   (decide_nearest_side scr rect = ''left'' \<longrightarrow>
      2 * rect_x rect + rect_width rect < 2 * rect_x scr + rect_width scr) \<and>
   (2 * rect_x rect + rect_width rect + 3 \<le> 2 * rect_x scr + rect_width scr \<longrightarrow>
      decide_nearest_side scr rect = ''left'') \<and>
   EDGE_SAFE_PX = 20 \<and>
   rect_x (collapsed_rect_for scr expanded side w h) =
     (if side = ''left'' then rect_x scr + 20 else rect_x scr + rect_width scr - w - 20) \<and>
   rect_y (collapsed_rect_for scr expanded side w h) =
     max (rect_y scr + 20) (min (rect_y scr + rect_height scr - h - 21) (rect_y expanded)) \<and>
   rect_width (collapsed_rect_for scr expanded side w h) = w \<and>
   rect_height (collapsed_rect_for scr expanded side w h) = h \<and>
   ((rect_x scr + 20 \<le> rect_x (collapsed_rect_for scr expanded side w h) \<and>
     rect_x (collapsed_rect_for scr expanded side w h) + w - 1
       \<le> rect_x scr + rect_width scr - 1 - 20 \<and>
     rect_y scr + 20 \<le> rect_y (collapsed_rect_for scr expanded side w h) \<and>
     rect_y (collapsed_rect_for scr expanded side w h) + h - 1
       \<le> rect_y scr + rect_height scr - 1 - 20)
    \<longleftrightarrow> (w \<le> rect_width scr - 40 \<and> h \<le> rect_height scr - 40)) \<and>
   (92 \<le> rect_width scr \<and> 104 \<le> rect_height scr \<and> \<not> collapsed s \<longrightarrow>
      (\<exists>s' r. collapse_to_edge_animated scr fm d s = Inr s' \<and>
         dock_side s' = decide_nearest_side scr (geometry s) \<and>
         geo_anim_end s' = Some r \<and>
         rect_x scr + 20 \<le> rect_x r \<and>
         rect_x r + rect_width r - 1 \<le> rect_x scr + rect_width scr - 1 - 20 \<and>
         rect_y scr + 20 \<le> rect_y r \<and>
         rect_y r + rect_height r - 1 \<le> rect_y scr + rect_height scr - 1 - 20))"
proof -
  have e: "92 \<le> rect_width scr \<and> 104 \<le> rect_height scr \<and> \<not> collapsed s \<longrightarrow>
      (\<exists>s' r. collapse_to_edge_animated scr fm d s = Inr s' \<and>
         dock_side s' = decide_nearest_side scr (geometry s) \<and>
         geo_anim_end s' = Some r \<and>
         rect_x scr + 20 \<le> rect_x r \<and>
         rect_x r + rect_width r - 1 \<le> rect_x scr + rect_width scr - 1 - 20 \<and>
         rect_y scr + 20 \<le> rect_y r \<and>
         rect_y r + rect_height r - 1 \<le> rect_y scr + rect_height scr - 1 - 20)"
  proof
    assume h: "92 \<le> rect_width scr \<and> 104 \<le> rect_height scr \<and> \<not> collapsed s"
    then have n: "\<not> collapsed s" by simp
    from collapse_result [OF n, of scr fm d] obtain st mood where
      r: "collapse_to_edge_animated scr fm d s =
        Inr (start_anim (geometry s)
            (collapsed_rect_for scr (geometry s) (decide_nearest_side scr (geometry s))
               (calc_collapsed_width_for_text fm mood)
               (calc_collapsed_height_for_text scr fm mood))
            (if 0 < window_opacity s then window_opacity s else EXPANDED_OPACITY)
            COLLAPSED_OPACITY True
            (s\<lparr>expanded_geo := Some (geometry s),
               dock_side := decide_nearest_side scr (geometry s),
               phrases := st,
               anim_target_collapsed := Some True,
               collapsed := True\<rparr>))"
      by blast
    let ?w = "calc_collapsed_width_for_text fm mood"
    let ?h = "calc_collapsed_height_for_text scr fm mood"
    let ?r = "collapsed_rect_for scr (geometry s) (decide_nearest_side scr (geometry s)) ?w ?h"
    from h have fw: "?w \<le> rect_width scr - 40"
      using calc_collapsed_width_fits [of scr fm mood] by (simp add: EDGE_SAFE_PX_def)
    from h have fh: "?h \<le> rect_height scr - 40"
      using calc_collapsed_height_fits [of scr fm mood] by (simp add: EDGE_SAFE_PX_def)
    from fw fh have w: "rect_x scr + 20 \<le> rect_x ?r \<and>
         rect_x ?r + rect_width ?r - 1 \<le> rect_x scr + rect_width scr - 1 - 20 \<and>
         rect_y scr + 20 \<le> rect_y ?r \<and>
         rect_y ?r + rect_height ?r - 1 \<le> rect_y scr + rect_height scr - 1 - 20"
      using collapsed_rect_for_within_iff
              [of scr "geometry s" "decide_nearest_side scr (geometry s)" ?w ?h]
      by (simp add: collapsed_rect_for_fields(3,4))
    have g: "geo_anim_end (start_anim (geometry s) ?r
            (if 0 < window_opacity s then window_opacity s else EXPANDED_OPACITY)
            COLLAPSED_OPACITY True
            (s\<lparr>expanded_geo := Some (geometry s),
               dock_side := decide_nearest_side scr (geometry s),
               phrases := st,
               anim_target_collapsed := Some True,
               collapsed := True\<rparr>)) = Some ?r"
      "dock_side (start_anim (geometry s) ?r
            (if 0 < window_opacity s then window_opacity s else EXPANDED_OPACITY)
            COLLAPSED_OPACITY True
            (s\<lparr>expanded_geo := Some (geometry s),
               dock_side := decide_nearest_side scr (geometry s),
               phrases := st,
               anim_target_collapsed := Some True,
               collapsed := True\<rparr>)) = decide_nearest_side scr (geometry s)"
      by (simp_all add: start_anim_def Let_def)
    from r w g show "\<exists>s' r. collapse_to_edge_animated scr fm d s = Inr s' \<and>
         dock_side s' = decide_nearest_side scr (geometry s) \<and>
         geo_anim_end s' = Some r \<and>
         rect_x scr + 20 \<le> rect_x r \<and>
         rect_x r + rect_width r - 1 \<le> rect_x scr + rect_width scr - 1 - 20 \<and>
         rect_y scr + 20 \<le> rect_y r \<and>
         rect_y r + rect_height r - 1 \<le> rect_y scr + rect_height scr - 1 - 20"
      by blast
  qed
  have m: "EDGE_SAFE_PX = 20" by (simp add: EDGE_SAFE_PX_def)
  have l1: "decide_nearest_side scr rect = ''left'' \<longrightarrow>
      2 * rect_x rect + rect_width rect < 2 * rect_x scr + rect_width scr"
    using decide_left_exact [of scr rect] by blast
  have l2: "2 * rect_x rect + rect_width rect + 3 \<le> 2 * rect_x scr + rect_width scr \<longrightarrow>
      decide_nearest_side scr rect = ''left''"
    using decide_left_sufficient [of rect scr] by blast
  from decide_left_fields [of scr rect] decide_right_iff [of scr rect] l1 l2 m
       collapsed_rect_for_fields [of scr expanded side w h]
       collapsed_rect_for_within_iff [of scr expanded side w h] e
  show ?thesis by blast
qed

theorem dock_side_and_docked_rect_witness:
  "decide_nearest_side example_screen
     \<lparr>rect_x = 900, rect_y = 10, rect_width = 270, rect_height = 178\<rparr> = ''right'' \<and>
   decide_nearest_side example_screen
     \<lparr>rect_x = 700, rect_y = 10, rect_width = 270, rect_height = 178\<rparr> = ''left'' \<and>
   decide_nearest_side example_screen
     \<lparr>rect_x = 825, rect_y = 10, rect_width = 270, rect_height = 178\<rparr> = ''right'' \<and>
   decide_nearest_side example_screen
     \<lparr>rect_x = 824, rect_y = 10, rect_width = 270, rect_height = 178\<rparr> = ''left'' \<and>
   collapsed_rect_for example_screen
     \<lparr>rect_x = 1640, rect_y = 10, rect_width = 270, rect_height = 178\<rparr> ''right'' 32 124
     = \<lparr>rect_x = 1868, rect_y = 20, rect_width = 32, rect_height = 124\<rparr> \<and>
   collapsed_rect_for example_screen
     \<lparr>rect_x = 10, rect_y = 990, rect_width = 270, rect_height = 178\<rparr> ''left'' 32 124
     = \<lparr>rect_x = 20, rect_y = 895, rect_width = 32, rect_height = 124\<rparr> \<and>
   (\<exists>s' r. collapse_to_edge_animated example_screen example_font (0, 0) example_overlay = Inr s' \<and>
      dock_side s' = ''right'' \<and> geo_anim_end s' = Some r \<and>
      20 \<le> rect_x r \<and> rect_x r + rect_width r - 1 \<le> 1899 \<and>
      20 \<le> rect_y r \<and> rect_y r + rect_height r - 1 \<le> 1019)"
proof -
  let ?g = "\<lparr>rect_x = 1640, rect_y = 10, rect_width = 270, rect_height = 178\<rparr>"
  let ?b = "\<lparr>rect_x = 10, rect_y = 990, rect_width = 270, rect_height = 178\<rparr>"
  have scr: "rect_x example_screen = 0" "rect_y example_screen = 0"
    "rect_width example_screen = 1920" "rect_height example_screen = 1040"
    by (simp_all add: example_screen_def)
  have n: "\<not> collapsed example_overlay" "geometry example_overlay = ?g"
    by (simp_all add: example_overlay_def overlay_init_def)
  have a1: "decide_nearest_side example_screen
       \<lparr>rect_x = 900, rect_y = 10, rect_width = 270, rect_height = 178\<rparr> = ''right''"
    using dock_side_and_docked_rect
            [of example_screen "\<lparr>rect_x = 900, rect_y = 10, rect_width = 270, rect_height = 178\<rparr>"]
          scr
    by simp
  have a2: "decide_nearest_side example_screen
       \<lparr>rect_x = 700, rect_y = 10, rect_width = 270, rect_height = 178\<rparr> = ''left''"
    using dock_side_and_docked_rect
            [of example_screen "\<lparr>rect_x = 700, rect_y = 10, rect_width = 270, rect_height = 178\<rparr>"]
          scr
    by simp
  have a3: "decide_nearest_side example_screen
       \<lparr>rect_x = 825, rect_y = 10, rect_width = 270, rect_height = 178\<rparr> = ''right''"
    using dock_side_and_docked_rect
            [of example_screen "\<lparr>rect_x = 825, rect_y = 10, rect_width = 270, rect_height = 178\<rparr>"]
          scr
    by simp
  have a4: "decide_nearest_side example_screen
       \<lparr>rect_x = 824, rect_y = 10, rect_width = 270, rect_height = 178\<rparr> = ''left''"
    using dock_side_and_docked_rect
            [of example_screen "\<lparr>rect_x = 824, rect_y = 10, rect_width = 270, rect_height = 178\<rparr>"]
          scr
    by simp
  have a5: "decide_nearest_side example_screen ?g = ''right''"
    using dock_side_and_docked_rect [of example_screen ?g] scr by simp
  have c: "collapsed_rect_for example_screen ?g ''right'' 32 124
     = \<lparr>rect_x = 1868, rect_y = 20, rect_width = 32, rect_height = 124\<rparr>"
    using dock_side_and_docked_rect [of example_screen ?g ?g "''right''" 32 124] scr
    by (cases "collapsed_rect_for example_screen ?g ''right'' 32 124") simp
  have d: "collapsed_rect_for example_screen ?b ''left'' 32 124
     = \<lparr>rect_x = 20, rect_y = 895, rect_width = 32, rect_height = 124\<rparr>"
    using dock_side_and_docked_rect [of example_screen ?b ?b "''left''" 32 124] scr
    by (cases "collapsed_rect_for example_screen ?b ''left'' 32 124") simp
  from dock_side_and_docked_rect
         [of example_screen ?g ?g "''right''" 32 124 example_overlay example_font "(0, 0)"]
       n scr
  obtain s' r where
    "collapse_to_edge_animated example_screen example_font (0, 0) example_overlay = Inr s'"
    "dock_side s' = decide_nearest_side example_screen ?g"
    "geo_anim_end s' = Some r"
    "rect_x example_screen + 20 \<le> rect_x r"
    "rect_x r + rect_width r - 1 \<le> rect_x example_screen + rect_width example_screen - 1 - 20"
    "rect_y example_screen + 20 \<le> rect_y r"
    "rect_y r + rect_height r - 1 \<le> rect_y example_screen + rect_height example_screen - 1 - 20"
    by auto
  then have e: "\<exists>s' r. collapse_to_edge_animated example_screen example_font (0, 0) example_overlay = Inr s' \<and>
      dock_side s' = ''right'' \<and> geo_anim_end s' = Some r \<and>
      20 \<le> rect_x r \<and> rect_x r + rect_width r - 1 \<le> 1899 \<and>
      20 \<le> rect_y r \<and> rect_y r + rect_height r - 1 \<le> 1019"
    using a5 scr by auto
  from a1 a2 a3 a4 c d e show ?thesis by blast
qed

section \<open>Properties of the readers and of the refresh tick\<close>

text \<open>
  \<open>DiskRateReader.read\<close> replaces a negative rate by zero: whatever the counters and the
  clock, a rate it returns is not negative.
\<close>

lemma disk_rate_read_nonneg:
  assumes "disk_rate_read os rd = ((r, w), rd')"
  shows "(\<forall>x. r = Some x \<longrightarrow> 0 \<le> x) \<and> (\<forall>x. w = Some x \<longrightarrow> 0 \<le> x)"
  using assms
  by (auto simp: disk_rate_read_def Let_def split: sum.splits option.splits if_splits)

lemma disk_rate_read_reset:
  "fst (disk_rate_read
     \<lparr>time_time = 11, disk_io_counters = Inr (Some \<lparr>read_bytes = 0, write_bytes = 4194304\<rparr>),
      net_io_counters = Inr None, cpu_percent = Inr None, cpu_freq = Inr None,
      virtual_memory = Inr None\<rparr>
     \<lparr>dr_last = Some \<lparr>read_bytes = 3145728, write_bytes = 2097152\<rparr>, dr_last_t = Some 10\<rparr>)
   = (Some 0, Some 2)"
  by (simp add: disk_rate_read_def Let_def)

text \<open>
  Claim C1 fails on \<open>PsutilReader.read\<close>, which divides the difference of two readings
  by the elapsed time and returns the quotient as it is. One second after readings of
  3145728 bytes sent and 2097152 bytes received, counters that have dropped to 1048576
  and 0 give the rates -2 MB/s up and -2 MB/s down.
\<close>

theorem psutil_read_negative_rate:
  "\<not> isl (psutil_read
     \<lparr>time_time = 11, disk_io_counters = Inr None,
      net_io_counters = Inr (Some \<lparr>bytes_sent = 1048576, bytes_recv = 0\<rparr>),
      cpu_percent = Inr (Some 5), cpu_freq = Inr None, virtual_memory = Inr None\<rparr>
     \<lparr>last_ts = 10, last_disk_read = 0, last_disk_write = 0,
      last_net_sent = 3145728, last_net_recv = 2097152\<rparr>) \<and>
   net_up_mb_s (fst (projr (psutil_read
     \<lparr>time_time = 11, disk_io_counters = Inr None,
      net_io_counters = Inr (Some \<lparr>bytes_sent = 1048576, bytes_recv = 0\<rparr>),
      cpu_percent = Inr (Some 5), cpu_freq = Inr None, virtual_memory = Inr None\<rparr>
     \<lparr>last_ts = 10, last_disk_read = 0, last_disk_write = 0,
      last_net_sent = 3145728, last_net_recv = 2097152\<rparr>))) = Some (- 2) \<and>
   net_down_mb_s (fst (projr (psutil_read
     \<lparr>time_time = 11, disk_io_counters = Inr None,
      net_io_counters = Inr (Some \<lparr>bytes_sent = 1048576, bytes_recv = 0\<rparr>),
      cpu_percent = Inr (Some 5), cpu_freq = Inr None, virtual_memory = Inr None\<rparr>
     \<lparr>last_ts = 10, last_disk_read = 0, last_disk_write = 0,
      last_net_sent = 3145728, last_net_recv = 2097152\<rparr>))) = Some (- 2)"
  by (simp add: psutil_read_def Let_def)

text \<open>
  An exception of a reader at the top of \<open>refresh\<close> leaves \<open>refresh\<close>: that of
  \<open>LhmReader.read\<close>, and that of any \<open>psutil\<close> call of \<open>PsutilReader.read\<close>.
\<close>

lemma psutil_read_raises:
  "disk_io_counters os = Inl e \<Longrightarrow> psutil_read os st = Inl e"
  "disk_io_counters os = Inr d \<Longrightarrow> net_io_counters os = Inl e \<Longrightarrow> psutil_read os st = Inl e"
  by (simp_all add: psutil_read_def Let_def)

lemma refresh_raises:
  "lhm_read env = Inl e \<Longrightarrow> refresh env s = Inl e"
  "lhm_read env = Inr g \<Longrightarrow> psutil_read (psr_os env) (psr s) = Inl e \<Longrightarrow> refresh env s = Inl e"
  by (simp_all add: refresh_def)

text \<open>
  Claim C2 fails on the same reader. In a tick in which \<open>psutil.net_io_counters()\<close>
  raises inside \<open>PsutilReader.read\<close>, \<open>refresh\<close> raises that exception.
\<close>

theorem refresh_raises_on_psutil_error:
  "refresh
     \<lparr>lhm_read = Inr (Some 12),
      psr_os = \<lparr>time_time = 11, disk_io_counters = Inr None,
                net_io_counters = Inl OSError,
                cpu_percent = Inr (Some 5), cpu_freq = Inr None, virtual_memory = Inr None\<rparr>,
      fallback_os = \<lparr>time_time = 11, disk_io_counters = Inr None,
                net_io_counters = Inr None,
                cpu_percent = Inr (Some 5), cpu_freq = Inr None, virtual_memory = Inr None\<rparr>,
      disk_os = \<lparr>time_time = 11, disk_io_counters = Inr None,
                net_io_counters = Inr None,
                cpu_percent = Inr (Some 5), cpu_freq = Inr None, virtual_memory = Inr None\<rparr>,
      draws_cpu = (0, 0), draws_gpu = (0, 0), draws_ram = (0, 0), draws_disk = (0, 0),
      draws_mood = (0, 0)\<rparr>
     example_overlay
   = Inl OSError"
  by (simp add: refresh_def psutil_read_def Let_def)

text \<open>
  The same tick with a \<open>psutil\<close> that answers: \<open>refresh\<close> returns, even though the disk
  counters are missing and the disk reader's own call raises.
\<close>

lemma refresh_returns_example:
  "\<not> isl (refresh
     \<lparr>lhm_read = Inr (Some 12),
      psr_os = \<lparr>time_time = 11, disk_io_counters = Inr None,
                net_io_counters = Inr (Some \<lparr>bytes_sent = 1048576, bytes_recv = 0\<rparr>),
                cpu_percent = Inr (Some 5), cpu_freq = Inr None, virtual_memory = Inr None\<rparr>,
      fallback_os = \<lparr>time_time = 11, disk_io_counters = Inr None,
                net_io_counters = Inr None,
                cpu_percent = Inl OSError, cpu_freq = Inr None, virtual_memory = Inl OSError\<rparr>,
      disk_os = \<lparr>time_time = 11, disk_io_counters = Inl OSError,
                net_io_counters = Inr None,
                cpu_percent = Inr (Some 5), cpu_freq = Inr None, virtual_memory = Inr None\<rparr>,
      draws_cpu = (0, 0), draws_gpu = (0, 0), draws_ram = (0, 0), draws_disk = (0, 0),
      draws_mood = (0, 0)\<rparr>
     example_overlay)"
  by (simp add: refresh_def psutil_read_def disk_rate_read_def get_def pick_bucket_def
        random_choice_def CPU_BUCKETS_def GPU_BUCKETS_def RAM_BUCKETS_def
        is_effectively_collapsed_def example_overlay_def overlay_init_def Let_def)

end
